theory Spec2Isabelle
  imports Complex_Main
begin

section \<open>Python values and exceptions\<close>

text \<open>
  The survey models of \<^verbatim>\<open>apps/survey/models.py\<close> store the submitted payload as JSON text
  and handle the decoded payload as an untyped Python object. A decoded payload is a
  \<open>pyval\<close>: a JSON object is a dict, held by its items (looked up with \<open>map_of\<close>), an
  array is a list. \<open>PDecimal\<close> and \<open>PDatetime\<close> are the values the database layer hands
  back for decimal and date columns. Floats are held as the number they denote; the code
  never computes with them.
\<close>

type_synonym datetime = int
type_synonym decimal = rat

datatype pyval =
    PNone
  | PBool bool
  | PInt int
  | PFloat rat
  | PStr string
  | PList "pyval list"
  | PDict "(string \<times> pyval) list"
  | PDecimal decimal
  | PDatetime datetime

text \<open>
  Every exception the modelled code can raise. \<open>NotImplementedError\<close> carries the question
  type and the response id its message is formatted from. \<open>Unmodelled\<close> is not a Python
  exception: it marks the one place where the model stops, a question slug that names an
  attribute of \<open>Respondant\<close> other than one of its text columns.
\<close>

datatype error =
    JSONDecodeError
  | TypeError
  | AttributeError
  | KeyError
  | IndexError
  | ValueError
  | UnboundLocalError
  | InvalidOperation
  | IntegrityError
  | DoesNotExist
  | FieldDoesNotExist
  | NotImplementedError string "nat option"
  | Unmodelled string

definition andThen :: "error + 'a \<Rightarrow> ('a \<Rightarrow> error + 'b) \<Rightarrow> error + 'b" where
  "andThen m f = (case m of Inl e \<Rightarrow> Inl e | Inr x \<Rightarrow> f x)"

definition orRaise :: "'a option \<Rightarrow> error \<Rightarrow> error + 'a" where
  "orRaise m e = (case m of None \<Rightarrow> Inl e | Some x \<Rightarrow> Inr x)"

text \<open>
  The library functions the models call are not part of the repository; they are taken as
  parameters, gathered in one record:
  \<^item> \<open>py_loads\<close>: \<^verbatim>\<open>simplejson.loads\<close> on a string, \<open>None\<close> when it raises;
  \<^item> \<open>py_dumps\<close>: \<^verbatim>\<open>simplejson.dumps\<close> on the flat mapping;
  \<^item> \<open>py_str\<close>: \<^verbatim>\<open>str(x)\<close>, also what \<^verbatim>\<open>"%s" % x\<close> inserts;
  \<^item> \<open>str_strip\<close>: \<^verbatim>\<open>s.strip()\<close> on a string;
  \<^item> \<open>py_Decimal\<close>: \<^verbatim>\<open>Decimal(s)\<close> on a string, \<open>None\<close> when it raises;
  \<^item> \<open>decimal_field max_digits decimal_places\<close>: what saving a value into a
    \<^verbatim>\<open>DecimalField\<close> stores, \<open>None\<close> when the conversion raises;
  \<^item> \<open>py_strptime\<close>, \<open>py_strftime\<close>: the two date conversions with format
    \<^verbatim>\<open>'%m/%d/%Y'\<close>;
  \<^item> \<open>utcnow\<close>: the clock;
  \<^item> \<open>object_attr\<close>, \<open>model_attr\<close>: the attribute names that \<^verbatim>\<open>None\<close>, and a model
    instance, inherit from the language and the framework.
\<close>

record env =
  py_loads :: "string \<Rightarrow> pyval option"
  py_dumps :: "(string \<rightharpoonup> pyval) \<Rightarrow> string"
  py_str :: "pyval \<Rightarrow> string"
  str_strip :: "string \<Rightarrow> string"
  py_Decimal :: "string \<Rightarrow> decimal option"
  decimal_field :: "nat \<Rightarrow> nat \<Rightarrow> pyval \<Rightarrow> pyval option"
  py_strptime :: "string \<Rightarrow> datetime option"
  py_strftime :: "datetime \<Rightarrow> string"
  utcnow :: datetime
  object_attr :: "string \<Rightarrow> bool"
  model_attr :: "string \<Rightarrow> bool"

subsection \<open>Operations on Python values\<close>

text \<open>Truth value of an object, as \<^verbatim>\<open>if x:\<close> tests it.\<close>

fun py_truth :: "pyval \<Rightarrow> bool" where
  "py_truth PNone = False"
| "py_truth (PBool b) = b"
| "py_truth (PInt i) = (i \<noteq> 0)"
| "py_truth (PFloat f) = (f \<noteq> 0)"
| "py_truth (PStr s) = (s \<noteq> [])"
| "py_truth (PList xs) = (xs \<noteq> [])"
| "py_truth (PDict kvs) = (kvs \<noteq> [])"
| "py_truth (PDecimal d) = (d \<noteq> 0)"
| "py_truth (PDatetime t) = True"

text \<open>\<^verbatim>\<open>self.answer_raw\<close> is a nullable text column: \<^verbatim>\<open>None\<close> and \<^verbatim>\<open>''\<close> are false.\<close>

fun raw_truth :: "string option \<Rightarrow> bool" where
  "raw_truth None = False"
| "raw_truth (Some s) = (s \<noteq> [])"

text \<open>\<^verbatim>\<open>x.get(k, d)\<close>: only a dict has the method.\<close>

fun py_get_default :: "pyval \<Rightarrow> string \<Rightarrow> pyval \<Rightarrow> error + pyval" where
  "py_get_default (PDict kvs) k d = Inr (case map_of kvs k of None \<Rightarrow> d | Some v \<Rightarrow> v)"
| "py_get_default _ k d = Inl AttributeError"

definition py_get :: "pyval \<Rightarrow> string \<Rightarrow> error + pyval" where
  "py_get x k = py_get_default x k PNone"

text \<open>\<^verbatim>\<open>x[k]\<close> with a string key \<open>k\<close>.\<close>

fun py_getitem :: "pyval \<Rightarrow> string \<Rightarrow> error + pyval" where
  "py_getitem (PDict kvs) k = orRaise (map_of kvs k) KeyError"
| "py_getitem _ k = Inl TypeError"

text \<open>\<^verbatim>\<open>x[0]\<close>. The keys of a decoded JSON object are strings, so \<open>0\<close> is never one.\<close>

fun py_getitem0 :: "pyval \<Rightarrow> error + pyval" where
  "py_getitem0 (PList []) = Inl IndexError"
| "py_getitem0 (PList (x # xs)) = Inr x"
| "py_getitem0 (PStr []) = Inl IndexError"
| "py_getitem0 (PStr (c # cs)) = Inr (PStr [c])"
| "py_getitem0 (PDict kvs) = Inl KeyError"
| "py_getitem0 _ = Inl TypeError"

text \<open>The elements a \<^verbatim>\<open>for\<close> loop over \<open>x\<close> visits.\<close>

fun py_iter :: "pyval \<Rightarrow> error + pyval list" where
  "py_iter (PList xs) = Inr xs"
| "py_iter (PStr s) = Inr (map (\<lambda>c. PStr [c]) s)"
| "py_iter (PDict kvs) = Inr (map (\<lambda>kv. PStr (fst kv)) kvs)"
| "py_iter _ = Inl TypeError"

text \<open>\<^verbatim>\<open>x.strip()\<close>: only a string has the method.\<close>

fun py_strip :: "env \<Rightarrow> pyval \<Rightarrow> error + string" where
  "py_strip E (PStr s) = Inr (str_strip E s)"
| "py_strip E _ = Inl AttributeError"

fun join :: "string \<Rightarrow> string list \<Rightarrow> string" where
  "join sep [] = []"
| "join sep [x] = x"
| "join sep (x # y # ys) = x @ sep @ join sep (y # ys)"

text \<open>\<^verbatim>\<open>s.replace(a, b)\<close> and \<^verbatim>\<open>s.replace(a, '')\<close> for a one-character \<open>a\<close>.\<close>

definition replace_char :: "char \<Rightarrow> char \<Rightarrow> string \<Rightarrow> string" where
  "replace_char a b s = map (\<lambda>c. if c = a then b else c) s"

definition remove_char :: "char \<Rightarrow> string \<Rightarrow> string" where
  "remove_char a s = filter (\<lambda>c. c \<noteq> a) s"

text \<open>What saving a value into a text column stores: strings and \<^verbatim>\<open>None\<close> as they are,
  anything else as its text.\<close>

fun text_field :: "env \<Rightarrow> pyval \<Rightarrow> pyval" where
  "text_field E PNone = PNone"
| "text_field E (PStr s) = PStr s"
| "text_field E v = PStr (py_str E v)"

text \<open>\<^verbatim>\<open>isinstance(x, (int, long, float, complex))\<close>; \<^verbatim>\<open>bool\<close> is a subclass of
  \<^verbatim>\<open>int\<close>.\<close>

fun is_number :: "pyval \<Rightarrow> bool" where
  "is_number (PBool b) = True"
| "is_number (PInt i) = True"
| "is_number (PFloat f) = True"
| "is_number _ = False"

section \<open>The models\<close>

text \<open>
  Field names carry a prefix per model, since several models share names (\<open>ts\<close>,
  \<open>answer\<close>, \<open>label\<close>). Text columns hold a \<open>pyval\<close>: the instance in memory can hold
  any object there. Only the columns the modelled methods read or write are kept.
\<close>

record grid_option =
  o_text :: string
  o_label :: string
  o_type :: string

record question =
  q_slug :: string
  q_type :: string
  q_grid_cols :: "grid_option list"

record respondant =
  rd_uuid :: string
  rd_gfk_returnURL :: pyval
  rd_complete :: bool
  rd_status :: pyval
  rd_review_status :: pyval
  rd_review_comment :: pyval
  rd_last_question :: pyval
  rd_vendor :: pyval
  rd_survey_site :: pyval
  rd_buy_or_catch :: pyval
  rd_how_sold :: pyval
  rd_locations :: "nat option"
  rd_ts :: "datetime option"
  rd_email :: pyval
  rd_surveyor :: "string option"  \<comment> \<open>the surveyor's full name, when there is a surveyor\<close>
  rd_csv_row :: "nat option"

record response =
  r_id :: "nat option"
  r_question :: question
  r_respondant :: "string option"
  r_answer :: pyval
  r_answer_number :: pyval
  r_answer_raw :: "string option"
  r_answer_date :: "datetime option"
  r_ts :: "datetime option"

record multianswer =
  ma_id :: nat
  ma_response :: nat
  ma_answer_text :: string
  ma_answer_label :: pyval

record gridanswer =
  ga_id :: nat
  ga_response :: nat
  ga_row_text :: pyval
  ga_row_label :: pyval
  ga_col_text :: string
  ga_col_label :: string
  ga_answer_text :: pyval
  ga_answer_number :: pyval

record location =
  l_id :: nat
  l_response :: nat
  l_respondant :: "string option"
  l_lat :: pyval
  l_lng :: pyval

record locationanswer =
  la_id :: nat
  la_location :: nat
  la_answer :: pyval
  la_label :: pyval

text \<open>
  Modelled from the spec: \<^verbatim>\<open>apps.reports.models.CSVRow\<close> is not among the sources. The
  spec's FlatExportRow is a cache row holding the serialised flat mapping; the code writes
  its \<^verbatim>\<open>json_data\<close>.
\<close>

record csvrow =
  c_id :: nat
  c_json_data :: "string option"

text \<open>The database: one list of rows per table, in row order.\<close>

record db =
  respondant_tbl :: "respondant list"
  response_tbl :: "response list"
  multianswer_tbl :: "multianswer list"
  gridanswer_tbl :: "gridanswer list"
  location_tbl :: "location list"
  locationanswer_tbl :: "locationanswer list"
  csvrow_tbl :: "csvrow list"

text \<open>The id an insert assigns: one not in the table.\<close>

definition fresh_id :: "nat list \<Rightarrow> nat" where
  "fresh_id ids = Suc (fold max ids 0)"

section \<open>The flat export\<close>

type_synonym flat = "string \<rightharpoonup> pyval"

text \<open>The reverse relations: the rows whose foreign key is the instance.\<close>

definition response_set :: "db \<Rightarrow> respondant \<Rightarrow> response list" where
  "response_set d self = filter (\<lambda>r. r_respondant r = Some (rd_uuid self)) (response_tbl d)"

definition location_set :: "db \<Rightarrow> respondant \<Rightarrow> location list" where
  "location_set d self = filter (\<lambda>l. l_respondant l = Some (rd_uuid self)) (location_tbl d)"

definition gridanswer_set :: "db \<Rightarrow> response \<Rightarrow> gridanswer list" where
  "gridanswer_set d self = filter (\<lambda>g. Some (ga_response g) = r_id self) (gridanswer_tbl d)"


definition response_location_set :: "db \<Rightarrow> response \<Rightarrow> location list" where
  "response_location_set d self = filter (\<lambda>l. Some (l_response l) = r_id self) (location_tbl d)"

definition locationanswer_set :: "db \<Rightarrow> location \<Rightarrow> locationanswer list" where
  "locationanswer_set d loc = filter (\<lambda>a. la_location a = l_id loc) (locationanswer_tbl d)"

text \<open>The loop of \<^verbatim>\<open>Response.generate_flat_dict\<close> over the grid answers. The key is
  \<^verbatim>\<open>slug + '-' + answer.row_label\<close>, a \<^verbatim>\<open>TypeError\<close> when the label is not a string.\<close>

fun grid_flat :: "string \<Rightarrow> gridanswer list \<Rightarrow> flat \<Rightarrow> error + flat" where
  "grid_flat slug [] flat = Inr flat"
| "grid_flat slug (answer # rest) flat =
     (case ga_row_label answer of
        PStr row_label \<Rightarrow> grid_flat slug rest (flat(slug @ ''-'' @ row_label \<mapsto> ga_answer_text answer))
      | _ \<Rightarrow> Inl TypeError)"

definition flat_scalar_types :: "string list" where
  "flat_scalar_types = [''info'', ''text'', ''textarea'', ''yes-no'', ''single-select'',
     ''auto-single-select'', ''map-multipoint'', ''pennies'', ''timepicker'', ''multi-select'']"

definition numeric_types :: "string list" where
  "numeric_types = [''currency'', ''integer'', ''number'']"

text \<open>\<^verbatim>\<open>Response.generate_flat_dict\<close>. The \<^verbatim>\<open>return flat\<close> is inside the
  \<^verbatim>\<open>if self.answer_raw\<close>: with no raw answer the method returns \<^verbatim>\<open>None\<close>, here
  \<open>Inr None\<close>.\<close>

definition Response_generate_flat_dict :: "env \<Rightarrow> db \<Rightarrow> response \<Rightarrow> error + flat option" where
  "Response_generate_flat_dict E d self =
     (let flat = Map.empty; slug = q_slug (r_question self); ty = q_type (r_question self) in
      if raw_truth (r_answer_raw self) then
        (if ty \<in> set flat_scalar_types then Inr (Some (flat(slug \<mapsto> r_answer self)))
         else if ty \<in> set numeric_types then
           Inr (Some (flat(slug \<mapsto> PStr (py_str E (r_answer_number self)))))
         else if ty = ''datepicker'' then
           (case r_answer_date self of
              None \<Rightarrow> Inl AttributeError
            | Some date \<Rightarrow> Inr (Some (flat(slug \<mapsto> PStr (py_strftime E date)))))
         else if ty = ''grid'' then
           andThen (grid_flat slug (gridanswer_set d self) flat) (\<lambda>flat1. Inr (Some flat1))
         else Inl (NotImplementedError ty (r_id self)))
      else Inr None)"

text \<open>The loop of \<^verbatim>\<open>Respondant.generate_flat_dict\<close>: \<^verbatim>\<open>flat.update(x)\<close> raises
  \<^verbatim>\<open>TypeError\<close> when \<open>x\<close> is \<^verbatim>\<open>None\<close>.\<close>

fun flat_update_all :: "env \<Rightarrow> db \<Rightarrow> response list \<Rightarrow> flat \<Rightarrow> error + flat" where
  "flat_update_all E d [] flat = Inr flat"
| "flat_update_all E d (response # rest) flat =
     (case Response_generate_flat_dict E d response of
        Inl e \<Rightarrow> Inl e
      | Inr None \<Rightarrow> Inl TypeError
      | Inr (Some flat1) \<Rightarrow> flat_update_all E d rest (flat ++ flat1))"

definition REVIEW_STATE_CHOICES :: "(string \<times> string) list" where
  "REVIEW_STATE_CHOICES = [(''needs review'', ''Needs Review''), (''flagged'', ''Flagged''),
     (''accepted'', ''Accepted'')]"

text \<open>The display method the framework derives from the choices: the label of a known
  state, the value itself otherwise.\<close>

definition get_review_status_display :: "respondant \<Rightarrow> pyval" where
  "get_review_status_display self =
     (case rd_review_status self of
        PStr s \<Rightarrow> (case map_of REVIEW_STATE_CHOICES s of Some label \<Rightarrow> PStr label | None \<Rightarrow> PStr s)
      | v \<Rightarrow> v)"

definition Respondant_generate_flat_dict :: "env \<Rightarrow> db \<Rightarrow> respondant \<Rightarrow> error + flat" where
  "Respondant_generate_flat_dict E d self =
     (let flat = [
        ''model-surveyor'' \<mapsto> PStr (case rd_surveyor self of Some full_name \<Rightarrow> full_name | None \<Rightarrow> []),
        ''model-timestamp'' \<mapsto>
           PStr (py_str E (case rd_ts self of Some t \<Rightarrow> PDatetime t | None \<Rightarrow> PNone)),
        ''model-email'' \<mapsto> rd_email self,
        ''model-complete'' \<mapsto> PBool (rd_complete self),
        ''model-review-status'' \<mapsto> get_review_status_display self]
      in flat_update_all E d (response_set d self) flat)"

text \<open>\<^verbatim>\<open>Respondant.update_csv_row\<close>: the right-hand side is evaluated first, then
  \<^verbatim>\<open>self.csv_row\<close> is fetched and saved.\<close>

definition update_csv_row :: "env \<Rightarrow> respondant \<Rightarrow> db \<Rightarrow> error + db" where
  "update_csv_row E self d =
     andThen (Respondant_generate_flat_dict E d self) (\<lambda>flat.
       case rd_csv_row self of
         None \<Rightarrow> Inl AttributeError
       | Some i \<Rightarrow>
           if i \<in> set (map c_id (csvrow_tbl d)) then
             Inr (d\<lparr>csvrow_tbl :=
               map (\<lambda>c. if c_id c = i then c\<lparr>c_json_data := Some (py_dumps E flat)\<rparr> else c)
                 (csvrow_tbl d)\<rparr>)
           else Inl DoesNotExist)"

section \<open>Saving a Respondant\<close>

text \<open>The row \<^verbatim>\<open>Model.save\<close> writes: text columns hold text.\<close>

definition respondant_row :: "env \<Rightarrow> respondant \<Rightarrow> respondant" where
  "respondant_row E self = self\<lparr>
     rd_gfk_returnURL := text_field E (rd_gfk_returnURL self),
     rd_status := text_field E (rd_status self),
     rd_review_status := text_field E (rd_review_status self),
     rd_review_comment := text_field E (rd_review_comment self),
     rd_last_question := text_field E (rd_last_question self),
     rd_vendor := text_field E (rd_vendor self),
     rd_survey_site := text_field E (rd_survey_site self),
     rd_buy_or_catch := text_field E (rd_buy_or_catch self),
     rd_how_sold := text_field E (rd_how_sold self),
     rd_email := text_field E (rd_email self)\<rparr>"

text \<open>\<^verbatim>\<open>super(Respondant, self).save()\<close>: the row with the instance's primary key is
  replaced, or a new row is added.\<close>

definition Respondant_super_save :: "env \<Rightarrow> respondant \<Rightarrow> db \<Rightarrow> db" where
  "Respondant_super_save E self d =
     (if rd_uuid self \<in> set (map rd_uuid (respondant_tbl d)) then
        d\<lparr>respondant_tbl :=
          map (\<lambda>x. if rd_uuid x = rd_uuid self then respondant_row E self else x) (respondant_tbl d)\<rparr>
      else d\<lparr>respondant_tbl := respondant_tbl d @ [respondant_row E self]\<rparr>)"

text \<open>\<^verbatim>\<open>Respondant.save\<close>. It returns the instance as the method leaves it, and the
  database.\<close>

definition Respondant_save :: "env \<Rightarrow> respondant \<Rightarrow> db \<Rightarrow> error + respondant \<times> db" where
  "Respondant_save E self0 d =
     (let self1 = (if rd_uuid self0 \<noteq> [] \<and> CHR '':'' \<in> set (rd_uuid self0)
                   then self0\<lparr>rd_uuid := replace_char (CHR '':'') (CHR ''_'') (rd_uuid self0)\<rparr>
                   else self0);
          self2 = (if rd_ts self1 = None then self1\<lparr>rd_ts := Some (utcnow E)\<rparr> else self1);
          self3 = self2\<lparr>rd_locations := Some (length (location_set d self2))\<rparr>
      in andThen
           (case rd_csv_row self3 of
              None \<Rightarrow>
                (let i = fresh_id (map c_id (csvrow_tbl d)) in
                 Inr (self3\<lparr>rd_csv_row := Some i\<rparr>,
                      d\<lparr>csvrow_tbl := csvrow_tbl d @ [\<lparr>c_id = i, c_json_data = None\<rparr>]\<rparr>))
            | Some i \<Rightarrow>
                if i \<in> set (map c_id (csvrow_tbl d)) then Inr (self3, d) else Inl DoesNotExist)
           (\<lambda>(self4, d1).
              andThen (update_csv_row E self4 (Respondant_super_save E self4 d1))
                (\<lambda>d2. Inr (self4, d2))))"

section \<open>Normalising a Response\<close>

subsection \<open>Saving child rows\<close>

text \<open>A decimal column stores \<^verbatim>\<open>None\<close> as null and converts anything else.\<close>

definition decimal_column :: "env \<Rightarrow> nat \<Rightarrow> nat \<Rightarrow> pyval \<Rightarrow> pyval option" where
  "decimal_column E max_digits decimal_places v =
     (if v = PNone then Some PNone else decimal_field E max_digits decimal_places v)"

text \<open>\<^verbatim>\<open>MultiAnswer(response=self, ...).save()\<close>: the foreign key is not nullable, so the
  Response must have an id.\<close>

definition MultiAnswer_save :: "env \<Rightarrow> response \<Rightarrow> string \<Rightarrow> pyval \<Rightarrow> db \<Rightarrow> error + db" where
  "MultiAnswer_save E self answer_text answer_label d =
     (case r_id self of
        None \<Rightarrow> Inl IntegrityError
      | Some i \<Rightarrow>
          Inr (d\<lparr>multianswer_tbl := multianswer_tbl d @
            [\<lparr>ma_id = fresh_id (map ma_id (multianswer_tbl d)), ma_response = i,
              ma_answer_text = answer_text, ma_answer_label = text_field E answer_label\<rparr>]\<rparr>))"

text \<open>\<^verbatim>\<open>GridAnswer(response=self, ...).save()\<close> with \<^verbatim>\<open>answer_number\<close> a decimal column
  of 10 digits, 2 of them decimal places.\<close>

definition GridAnswer_save ::
  "env \<Rightarrow> response \<Rightarrow> pyval \<Rightarrow> pyval \<Rightarrow> grid_option \<Rightarrow> pyval \<Rightarrow> pyval \<Rightarrow> db \<Rightarrow> error + db" where
  "GridAnswer_save E self row_text row_label grid_col answer_text answer_number d =
     (case r_id self of
        None \<Rightarrow> Inl IntegrityError
      | Some i \<Rightarrow>
          andThen (orRaise (decimal_column E 10 2 answer_number) InvalidOperation) (\<lambda>number.
            Inr (d\<lparr>gridanswer_tbl := gridanswer_tbl d @
              [\<lparr>ga_id = fresh_id (map ga_id (gridanswer_tbl d)), ga_response = i,
                ga_row_text = text_field E row_text, ga_row_label = text_field E row_label,
                ga_col_text = o_text grid_col, ga_col_label = o_label grid_col,
                ga_answer_text = text_field E answer_text, ga_answer_number = number\<rparr>]\<rparr>)))"

text \<open>\<^verbatim>\<open>self.respondant\<close>: \<^verbatim>\<open>None\<close> without a foreign key, the row otherwise.\<close>

definition get_respondant :: "db \<Rightarrow> response \<Rightarrow> error + respondant option" where
  "get_respondant d self =
     (case r_respondant self of
        None \<Rightarrow> Inr None
      | Some u \<Rightarrow>
          (case find (\<lambda>x. rd_uuid x = u) (respondant_tbl d) of
             None \<Rightarrow> Inl DoesNotExist
           | Some x \<Rightarrow> Inr (Some x)))"

text \<open>\<^verbatim>\<open>Location(lat=..., lng=..., response=self, respondant=self.respondant).save()\<close>,
  with decimal columns of 10 digits, 7 of them decimal places. It returns the new row's
  id.\<close>

definition Location_save :: "env \<Rightarrow> response \<Rightarrow> decimal \<Rightarrow> decimal \<Rightarrow> db \<Rightarrow> error + nat \<times> db" where
  "Location_save E self lat lng d =
     andThen (get_respondant d self) (\<lambda>respondant.
       case r_id self of
         None \<Rightarrow> Inl IntegrityError
       | Some i \<Rightarrow>
           andThen (orRaise (decimal_column E 10 7 (PDecimal lat)) InvalidOperation) (\<lambda>lat1.
           andThen (orRaise (decimal_column E 10 7 (PDecimal lng)) InvalidOperation) (\<lambda>lng1.
             let location = fresh_id (map l_id (location_tbl d)) in
             Inr (location, d\<lparr>location_tbl := location_tbl d @
               [\<lparr>l_id = location, l_response = i, l_respondant = map_option rd_uuid respondant,
                 l_lat = lat1, l_lng = lng1\<rparr>]\<rparr>))))"

definition LocationAnswer_save :: "env \<Rightarrow> pyval \<Rightarrow> pyval \<Rightarrow> nat \<Rightarrow> db \<Rightarrow> db" where
  "LocationAnswer_save E answer label location d =
     d\<lparr>locationanswer_tbl := locationanswer_tbl d @
       [\<lparr>la_id = fresh_id (map la_id (locationanswer_tbl d)), la_location = location,
         la_answer = text_field E answer, la_label = text_field E label\<rparr>]\<rparr>"

text \<open>The three \<^verbatim>\<open>...set.all().delete()\<close>. Deleting a Location deletes the
  LocationAnswers that point to it.\<close>

definition delete_multianswers :: "response \<Rightarrow> db \<Rightarrow> db" where
  "delete_multianswers self d =
     d\<lparr>multianswer_tbl := filter (\<lambda>m. Some (ma_response m) \<noteq> r_id self) (multianswer_tbl d)\<rparr>"

definition delete_gridanswers :: "response \<Rightarrow> db \<Rightarrow> db" where
  "delete_gridanswers self d =
     d\<lparr>gridanswer_tbl := filter (\<lambda>g. Some (ga_response g) \<noteq> r_id self) (gridanswer_tbl d)\<rparr>"

definition delete_locations :: "response \<Rightarrow> db \<Rightarrow> db" where
  "delete_locations self d =
     d\<lparr>location_tbl := filter (\<lambda>l. Some (l_response l) \<noteq> r_id self) (location_tbl d),
       locationanswer_tbl :=
         filter (\<lambda>a. la_location a \<notin> set (map l_id (response_location_set d self)))
           (locationanswer_tbl d)\<rparr>"

subsection \<open>The branches of \<^verbatim>\<open>save_related\<close>\<close>

text \<open>\<^verbatim>\<open>simplejson.loads(x)\<close> on an object: a \<^verbatim>\<open>TypeError\<close> unless \<open>x\<close> is a string.\<close>

definition loads :: "env \<Rightarrow> pyval \<Rightarrow> error + pyval" where
  "loads E x = (case x of PStr s \<Rightarrow> orRaise (py_loads E s) JSONDecodeError | _ \<Rightarrow> Inl TypeError)"

text \<open>
  \<^verbatim>\<open>if answer.get('name'): ... answer['name'].strip() elif answer.get('text'): ...
  answer['text'].strip()\<close>, shared by the single-select and the multi-select branch. With
  neither key set the \<^verbatim>\<open>if\<close> assigns nothing: the result is \<open>previous\<close>.
\<close>

definition name_or_text :: "env \<Rightarrow> pyval \<Rightarrow> 'a \<Rightarrow> (string \<Rightarrow> 'a) \<Rightarrow> error + 'a" where
  "name_or_text E answer previous assign =
     andThen (py_get answer ''name'') (\<lambda>name.
       if py_truth name then
         andThen (andThen (py_getitem answer ''name'') (py_strip E)) (\<lambda>s. Inr (assign s))
       else
         andThen (py_get answer ''text'') (\<lambda>text.
           if py_truth text then
             andThen (andThen (py_getitem answer ''text'') (py_strip E)) (\<lambda>s. Inr (assign s))
           else Inr previous))"

text \<open>
  The multi-select loop. \<open>answer_text\<close> is the local variable of that name, \<open>None\<close> while
  it is unbound: an element with neither \<^verbatim>\<open>name\<close> nor \<^verbatim>\<open>text\<close> leaves it as the
  previous element set it, and reading it unbound raises.
\<close>

fun multi_select_loop ::
  "env \<Rightarrow> response \<Rightarrow> pyval list \<Rightarrow> string option \<Rightarrow> string list \<Rightarrow> db \<Rightarrow> error + string list \<times> db" where
  "multi_select_loop E self [] answer_text answers d = Inr (answers, d)"
| "multi_select_loop E self (answer # rest) answer_text answers d =
     andThen (name_or_text E answer answer_text Some) (\<lambda>answer_text1.
     andThen (orRaise answer_text1 UnboundLocalError) (\<lambda>t.
     andThen (py_get_default answer ''label'' PNone) (\<lambda>answer_label.
     andThen (MultiAnswer_save E self t answer_label d) (\<lambda>d1.
       multi_select_loop E self rest answer_text1 (answers @ [t]) d1))))"

text \<open>The map-multipoint and pennies loops, which the source writes out twice. The second
  \<^verbatim>\<open>location.save()\<close> of an iteration writes the same row again and is left out.\<close>

fun location_answers_loop :: "env \<Rightarrow> nat \<Rightarrow> pyval list \<Rightarrow> db \<Rightarrow> error + db" where
  "location_answers_loop E location [] d = Inr d"
| "location_answers_loop E location (answer # rest) d =
     andThen (py_getitem answer ''text'') (\<lambda>text.
     andThen (py_getitem answer ''label'') (\<lambda>label.
       location_answers_loop E location rest (LocationAnswer_save E text label location d)))"

fun points_loop ::
  "env \<Rightarrow> response \<Rightarrow> pyval list \<Rightarrow> string list \<Rightarrow> db \<Rightarrow> error + string list \<times> db" where
  "points_loop E self [] answers d = Inr (answers, d)"
| "points_loop E self (point # rest) answers d =
     andThen (py_getitem point ''lat'') (\<lambda>lat.
     andThen (py_getitem point ''lng'') (\<lambda>lng.
     andThen (py_getitem point ''answers'') (\<lambda>point_answers.
     let answers1 = answers @
           [py_str E lat @ '','' @ py_str E lng @ '': '' @ py_str E point_answers] in
     andThen (orRaise (py_Decimal E (py_str E lat)) InvalidOperation) (\<lambda>dlat.
     andThen (orRaise (py_Decimal E (py_str E lng)) InvalidOperation) (\<lambda>dlng.
     andThen (Location_save E self dlat dlng d) (\<lambda>(location, d1).
     andThen (andThen (py_getitem0 point_answers) py_iter) (\<lambda>sub_answers.
     andThen (location_answers_loop E location sub_answers d1) (\<lambda>d2.
       points_loop E self rest answers1 d2))))))))"

definition points_branch :: "env \<Rightarrow> string \<Rightarrow> response \<Rightarrow> db \<Rightarrow> error + response \<times> db" where
  "points_branch E raw self d =
     andThen (andThen (andThen (loads E (PStr raw)) (loads E)) py_iter) (\<lambda>points.
     andThen (points_loop E self points [] (delete_locations self d)) (\<lambda>(answers, d1).
       Inr (self\<lparr>r_answer := PStr (join '', '' answers)\<rparr>, d1)))"

text \<open>
  The grid loops; what they print is left out. One cell of a column with a scalar type:
  everything inside the \<^verbatim>\<open>try\<close>.
\<close>

definition grid_cell :: "env \<Rightarrow> response \<Rightarrow> pyval \<Rightarrow> grid_option \<Rightarrow> db \<Rightarrow> error + db" where
  "grid_cell E self answer grid_col d =
     (let key = remove_char (CHR ''-'') (o_label grid_col) in
      andThen (py_getitem answer key) (\<lambda>answer_text.
      andThen (py_getitem answer key) (\<lambda>answer_number.
      andThen (py_getitem answer ''label'') (\<lambda>row_label.
      andThen (py_getitem answer ''text'') (\<lambda>row_text.
        GridAnswer_save E self row_text row_label grid_col answer_text answer_number d)))))"

text \<open>The cells of a multi-select column: the loop inside the \<^verbatim>\<open>try\<close>. It returns the
  exception that ended it, if any, and the database with the rows saved until then.\<close>

fun grid_multi_loop ::
  "env \<Rightarrow> response \<Rightarrow> pyval \<Rightarrow> grid_option \<Rightarrow> pyval list \<Rightarrow> db \<Rightarrow> error option \<times> db" where
  "grid_multi_loop E self answer grid_col [] d = (None, d)"
| "grid_multi_loop E self answer grid_col (this_answer # rest) d =
     (case andThen (py_getitem answer ''label'') (\<lambda>row_label.
           andThen (py_getitem answer ''text'') (\<lambda>row_text.
             GridAnswer_save E self row_text row_label grid_col this_answer PNone d)) of
        Inl e \<Rightarrow> (Some e, d)
      | Inr d1 \<Rightarrow> grid_multi_loop E self answer grid_col rest d1)"

definition grid_multi :: "env \<Rightarrow> response \<Rightarrow> pyval \<Rightarrow> grid_option \<Rightarrow> db \<Rightarrow> error option \<times> db" where
  "grid_multi E self answer grid_col d =
     (case andThen (py_getitem answer (remove_char (CHR ''-'') (o_label grid_col))) py_iter of
        Inl e \<Rightarrow> (Some e, d)
      | Inr these \<Rightarrow> grid_multi_loop E self answer grid_col these d)"

definition grid_scalar_types :: "string list" where
  "grid_scalar_types = [''currency'', ''integer'', ''number'', ''single-select'', ''text'', ''yes-no'']"

text \<open>
  The loop over the grid columns of one row. \<open>e_bound\<close> tells whether the local variable
  \<^verbatim>\<open>e\<close> is bound: the first handler binds it (\<^verbatim>\<open>except Exception as e\<close>), the second
  one, a bare \<^verbatim>\<open>except\<close>, prints it, which raises while it is unbound.
\<close>

fun grid_cols_loop ::
  "env \<Rightarrow> response \<Rightarrow> pyval \<Rightarrow> grid_option list \<Rightarrow> bool \<Rightarrow> db \<Rightarrow> error + bool \<times> db" where
  "grid_cols_loop E self answer [] e_bound d = Inr (e_bound, d)"
| "grid_cols_loop E self answer (grid_col # rest) e_bound d =
     (if o_type grid_col \<in> set grid_scalar_types then
        (case grid_cell E self answer grid_col d of
           Inl e \<Rightarrow> grid_cols_loop E self answer rest True d
         | Inr d1 \<Rightarrow> grid_cols_loop E self answer rest e_bound d1)
      else if o_type grid_col = ''multi-select'' then
        (case grid_multi E self answer grid_col d of
           (None, d1) \<Rightarrow> grid_cols_loop E self answer rest e_bound d1
         | (Some e, d1) \<Rightarrow>
             if e_bound then grid_cols_loop E self answer rest e_bound d1
             else Inl UnboundLocalError)
      else grid_cols_loop E self answer rest e_bound d)"

fun grid_rows_loop :: "env \<Rightarrow> response \<Rightarrow> pyval list \<Rightarrow> bool \<Rightarrow> db \<Rightarrow> error + db" where
  "grid_rows_loop E self [] e_bound d = Inr d"
| "grid_rows_loop E self (answer # rest) e_bound d =
     andThen (grid_cols_loop E self answer (q_grid_cols (r_question self)) e_bound d)
       (\<lambda>(e_bound1, d1). grid_rows_loop E self rest e_bound1 d1)"

text \<open>\<^verbatim>\<open>self.id\<close> as a condition: an id is set and is not 0.\<close>

fun id_truth :: "nat option \<Rightarrow> bool" where
  "id_truth None = False"
| "id_truth (Some i) = (i \<noteq> 0)"

text \<open>
  The \<^verbatim>\<open>if\<close>/\<^verbatim>\<open>elif\<close> chain of \<^verbatim>\<open>Response.save_related\<close>, from
  \<^verbatim>\<open>self.answer = simplejson.loads(self.answer_raw)\<close> to the end of the grid branch.
  There is no \<^verbatim>\<open>else\<close>: any other type keeps the decoded payload as the answer.
\<close>

definition normalize :: "env \<Rightarrow> string \<Rightarrow> response \<Rightarrow> db \<Rightarrow> error + response \<times> db" where
  "normalize E raw self0 d =
     andThen (loads E (PStr raw)) (\<lambda>decoded.
     let self = self0\<lparr>r_answer := decoded\<rparr>; ty = q_type (r_question self) in
     if ty \<in> set [''datepicker''] then
       (case decoded of
          PStr s \<Rightarrow> andThen (orRaise (py_strptime E s) ValueError)
                      (\<lambda>date. Inr (self\<lparr>r_answer_date := Some date\<rparr>, d))
        | _ \<Rightarrow> Inl TypeError)
     else if ty \<in> set numeric_types then
       (if is_number decoded then Inr (self\<lparr>r_answer_number := decoded\<rparr>, d)
        else Inr (self\<lparr>r_answer := PNone\<rparr>, d))
     else if ty \<in> set [''auto-single-select'', ''single-select'', ''yes-no''] then
       andThen (loads E (PStr raw)) (\<lambda>answer.
       andThen (name_or_text E answer self (\<lambda>s. self\<lparr>r_answer := PStr s\<rparr>)) (\<lambda>self1.
         Inr (self1, d)))
     else if ty \<in> set [''auto-multi-select'', ''multi-select''] then
       andThen (andThen (loads E (PStr raw)) py_iter) (\<lambda>elements.
       andThen (multi_select_loop E self elements None [] (delete_multianswers self d))
         (\<lambda>(answers, d1). Inr (self\<lparr>r_answer := PStr (join '', '' answers)\<rparr>, d1)))
     else if ty \<in> set [''map-multipoint''] \<and> id_truth (r_id self) then points_branch E raw self d
     else if ty \<in> set [''pennies''] \<and> id_truth (r_id self) then points_branch E raw self d
     else if ty = ''grid'' then
       andThen (py_iter decoded) (\<lambda>rows.
       andThen (grid_rows_loop E self rows False (delete_gridanswers self d)) (\<lambda>d1.
         Inr (self, d1)))
     else Inr (self, d))"

subsection \<open>The denormalised answer on the Respondant\<close>

text \<open>
  The attributes a Respondant has by its class: its columns and its methods
  (\<^verbatim>\<open>objects\<close> is not readable on an instance). \<open>model_attr\<close> adds what the framework
  gives every model instance.
\<close>

definition Respondant_text_columns :: "string list" where
  "Respondant_text_columns = [''gfk_returnURL'', ''status'', ''review_status'', ''review_comment'',
     ''last_question'', ''vendor'', ''survey_site'', ''buy_or_catch'', ''how_sold'', ''email'']"

definition Respondant_other_columns :: "string list" where
  "Respondant_other_columns = [''uuid'', ''survey'', ''complete'', ''locations'', ''ts'',
     ''updated_at'', ''surveyor'', ''csv_row'', ''test_data'']"

definition Respondant_methods :: "string list" where
  "Respondant_methods = [''__unicode__'', ''save'', ''update_csv_row'', ''get_field_names'',
     ''generate_flat_dict'', ''stats_report_filter'']"

definition Respondant_hasattr :: "env \<Rightarrow> string \<Rightarrow> bool" where
  "Respondant_hasattr E name =
     (name \<in> set Respondant_text_columns \<or> name \<in> set Respondant_other_columns \<or>
      name \<in> set Respondant_methods \<or> model_attr E name)"

text \<open>\<^verbatim>\<open>setattr(respondant, name, v)\<close> for a text column.\<close>

definition Respondant_setattr :: "string \<Rightarrow> pyval \<Rightarrow> respondant \<Rightarrow> respondant" where
  "Respondant_setattr name v x =
     (if name = ''gfk_returnURL'' then x\<lparr>rd_gfk_returnURL := v\<rparr>
      else if name = ''status'' then x\<lparr>rd_status := v\<rparr>
      else if name = ''review_status'' then x\<lparr>rd_review_status := v\<rparr>
      else if name = ''review_comment'' then x\<lparr>rd_review_comment := v\<rparr>
      else if name = ''last_question'' then x\<lparr>rd_last_question := v\<rparr>
      else if name = ''vendor'' then x\<lparr>rd_vendor := v\<rparr>
      else if name = ''survey_site'' then x\<lparr>rd_survey_site := v\<rparr>
      else if name = ''buy_or_catch'' then x\<lparr>rd_buy_or_catch := v\<rparr>
      else if name = ''how_sold'' then x\<lparr>rd_how_sold := v\<rparr>
      else if name = ''email'' then x\<lparr>rd_email := v\<rparr>
      else x)"

text \<open>
  The end of \<^verbatim>\<open>save_related\<close> before \<^verbatim>\<open>self.save()\<close>: when the Respondant has an
  attribute named as the question's slug, the answer is written to that column, the
  Respondant is saved and its export row is rebuilt. \<^verbatim>\<open>filter(pk=...).update(...)\<close>
  raises for a name that is no column. A name that is a column but not a text column, or
  an attribute of the framework, is where the model stops.
\<close>

definition update_respondant :: "env \<Rightarrow> response \<Rightarrow> db \<Rightarrow> error + db" where
  "update_respondant E self d =
     (let question_slug = replace_char (CHR ''-'') (CHR ''_'') (q_slug (r_question self)) in
      andThen (get_respondant d self) (\<lambda>found.
        case found of
          None \<Rightarrow> if object_attr E question_slug then Inl AttributeError else Inr d
        | Some respondant \<Rightarrow>
            if Respondant_hasattr E question_slug then
              (if question_slug \<in> set Respondant_text_columns then
                 (let d1 = d\<lparr>respondant_tbl :=
                        map (\<lambda>x. if rd_uuid x = rd_uuid respondant
                                  then Respondant_setattr question_slug (text_field E (r_answer self)) x
                                  else x) (respondant_tbl d)\<rparr>;
                      respondant1 = Respondant_setattr question_slug (r_answer self) respondant
                  in andThen (Respondant_save E respondant1 d1) (\<lambda>(respondant2, d2).
                       update_csv_row E respondant2 d2))
               else if question_slug \<in> set Respondant_methods then Inl FieldDoesNotExist
               else Inl (Unmodelled question_slug))
            else Inr d))"

section \<open>Saving a Response\<close>

text \<open>The row \<^verbatim>\<open>Model.save\<close> writes: \<^verbatim>\<open>answer\<close> is a text column,
  \<^verbatim>\<open>answer_number\<close> a decimal column of 10 digits, 2 of them decimal places.\<close>

definition response_row :: "env \<Rightarrow> response \<Rightarrow> error + response" where
  "response_row E self =
     andThen (orRaise (decimal_column E 10 2 (r_answer_number self)) InvalidOperation) (\<lambda>number.
       Inr (self\<lparr>r_answer := text_field E (r_answer self), r_answer_number := number\<rparr>))"

text \<open>Whether the instance has a primary key and a row with that key is in the table.\<close>

definition stored :: "db \<Rightarrow> response \<Rightarrow> bool" where
  "stored d self = (r_id self \<noteq> None \<and> r_id self \<in> set (map r_id (response_tbl d)))"

text \<open>
  \<^verbatim>\<open>super(Response, self).save()\<close>: the row with the instance's primary key is replaced;
  when there is no such row, a row is inserted, with the instance's id or, when it has
  none, with a new one. The first component tells whether the row was created, as the
  \<^verbatim>\<open>post_save\<close> signal does.
\<close>

definition Response_super_save :: "env \<Rightarrow> response \<Rightarrow> db \<Rightarrow> error + bool \<times> response \<times> db" where
  "Response_super_save E self d =
     andThen (response_row E self) (\<lambda>row.
       if stored d self then
         Inr (False, self,
              d\<lparr>response_tbl := map (\<lambda>x. if r_id x = r_id self then row else x) (response_tbl d)\<rparr>)
       else
         (case r_id self of
            None \<Rightarrow>
              (let i = fresh_id (map (\<lambda>x. case r_id x of Some j \<Rightarrow> j | None \<Rightarrow> 0) (response_tbl d)) in
               Inr (True, self\<lparr>r_id := Some i\<rparr>,
                    d\<lparr>response_tbl := response_tbl d @ [row\<lparr>r_id := Some i\<rparr>]\<rparr>))
          | Some i \<Rightarrow> Inr (True, self, d\<lparr>response_tbl := response_tbl d @ [row]\<rparr>)))"

text \<open>
  \<^verbatim>\<open>Response.save\<close>, the \<^verbatim>\<open>post_save\<close> handler \<^verbatim>\<open>save_related\<close> of the module, and
  the method \<^verbatim>\<open>Response.save_related\<close>. They call each other: saving sends the signal,
  the handler calls the method for a created row, and the method ends with
  \<^verbatim>\<open>self.save()\<close>.
\<close>

function Response_save :: "env \<Rightarrow> response \<Rightarrow> db \<Rightarrow> error + response \<times> db"
  and save_related :: "env \<Rightarrow> response \<Rightarrow> bool \<Rightarrow> db \<Rightarrow> error + response \<times> db"
  and Response_save_related :: "env \<Rightarrow> response \<Rightarrow> db \<Rightarrow> error + response \<times> db"
where
  "Response_save E self d =
     (let self1 = (if r_ts self = None then self\<lparr>r_ts := Some (utcnow E)\<rparr> else self) in
      case Response_super_save E self1 d of
        Inl e \<Rightarrow> Inl e
      | Inr (created, self2, d1) \<Rightarrow> save_related E self2 created d1)"
| "save_related E instance created d =
     (if created then Response_save_related E instance d else Inr (instance, d))"
| "Response_save_related E self d =
     (case r_answer_raw self of
        None \<Rightarrow> Inr (self, d)
      | Some raw \<Rightarrow>
          if raw \<noteq> [] then
            (case normalize E raw self d of
               Inl e \<Rightarrow> Inl e
             | Inr (self1, d1) \<Rightarrow>
                 (case update_respondant E self1 d1 of
                    Inl e \<Rightarrow> Inl e
                  | Inr d2 \<Rightarrow> Response_save E self1 d2))
          else Inr (self, d))"
  by pat_completeness auto

text \<open>
  The recursion ends. The branches and the update of the Respondant leave the Response
  table and the instance's id alone, so the closing \<^verbatim>\<open>self.save()\<close> of a stored Response
  finds its row, and the one of a Response not stored yet inserts it.
\<close>

lemma andThen_Inr_iff: "andThen m f = Inr y \<longleftrightarrow> (\<exists>x. m = Inr x \<and> f x = Inr y)"
  by (cases m) (auto simp: andThen_def)

lemma orRaise_Inr_iff: "orRaise m e = Inr y \<longleftrightarrow> m = Some y"
  by (cases m) (auto simp: orRaise_def)

lemma name_or_text_cases:
  "name_or_text E answer previous assign = Inr y \<Longrightarrow> y = previous \<or> (\<exists>s. y = assign s)"
  by (auto simp: name_or_text_def andThen_Inr_iff split: if_splits)

lemma points_branch_r_id: "points_branch E raw self d = Inr (self1, d1) \<Longrightarrow> r_id self1 = r_id self"
  by (auto simp: points_branch_def andThen_Inr_iff)

lemma normalize_r_id: "normalize E raw self d = Inr (self1, d1) \<Longrightarrow> r_id self1 = r_id self"
  unfolding normalize_def Let_def andThen_Inr_iff
  by (auto split: if_splits pyval.splits dest!: name_or_text_cases points_branch_r_id simp: andThen_Inr_iff)

lemma MultiAnswer_save_response_tbl:
  "MultiAnswer_save E self t l d = Inr d1 \<Longrightarrow> response_tbl d1 = response_tbl d"
  by (auto simp: MultiAnswer_save_def split: option.splits)

lemma multi_select_loop_response_tbl:
  "multi_select_loop E self elements answer_text answers d = Inr (answers1, d1) \<Longrightarrow>
   response_tbl d1 = response_tbl d"
proof (induction elements arbitrary: answer_text answers d)
  case Nil
  then show ?case by simp
next
  case (Cons answer rest)
  from Cons.prems obtain answer_text1 t l d0 where
    "MultiAnswer_save E self t l d = Inr d0"
    and "multi_select_loop E self rest answer_text1 (answers @ [t]) d0 = Inr (answers1, d1)"
    by (auto simp: andThen_Inr_iff)
  then show ?case
    using Cons.IH MultiAnswer_save_response_tbl by metis
qed

lemma GridAnswer_save_response_tbl:
  "GridAnswer_save E self rt rl col t n d = Inr d1 \<Longrightarrow> response_tbl d1 = response_tbl d"
  by (auto simp: GridAnswer_save_def andThen_Inr_iff split: option.splits)

lemma Location_save_response_tbl:
  "Location_save E self lat lng d = Inr (location, d1) \<Longrightarrow> response_tbl d1 = response_tbl d"
  by (auto simp: Location_save_def andThen_Inr_iff Let_def split: option.splits)

lemma location_answers_loop_response_tbl:
  "location_answers_loop E location answers d = Inr d1 \<Longrightarrow> response_tbl d1 = response_tbl d"
proof (induction answers arbitrary: d)
  case Nil
  then show ?case by simp
next
  case (Cons answer rest)
  from Cons.prems obtain t l where
    "location_answers_loop E location rest (LocationAnswer_save E t l location d) = Inr d1"
    by (auto simp: andThen_Inr_iff)
  then have "response_tbl d1 = response_tbl (LocationAnswer_save E t l location d)"
    by (rule Cons.IH)
  then show ?case by (simp add: LocationAnswer_save_def)
qed

lemma points_loop_response_tbl:
  "points_loop E self points answers d = Inr (answers1, d1) \<Longrightarrow> response_tbl d1 = response_tbl d"
proof (induction points arbitrary: answers d)
  case Nil
  then show ?case by simp
next
  case (Cons point rest)
  from Cons.prems obtain lat lng location d0 sub d2 answers0 where
    "Location_save E self lat lng d = Inr (location, d0)"
    "location_answers_loop E location sub d0 = Inr d2"
    "points_loop E self rest answers0 d2 = Inr (answers1, d1)"
    by (auto simp: andThen_Inr_iff Let_def)
  then show ?case
    using Cons.IH Location_save_response_tbl location_answers_loop_response_tbl by metis
qed

lemma points_branch_response_tbl:
  "points_branch E raw self d = Inr (self1, d1) \<Longrightarrow> response_tbl d1 = response_tbl d"
  by (auto simp: points_branch_def andThen_Inr_iff delete_locations_def
      dest!: points_loop_response_tbl)

lemma grid_cell_response_tbl:
  "grid_cell E self answer grid_col d = Inr d1 \<Longrightarrow> response_tbl d1 = response_tbl d"
  by (auto simp: grid_cell_def andThen_Inr_iff Let_def dest: GridAnswer_save_response_tbl)

lemma grid_multi_loop_response_tbl:
  "response_tbl (snd (grid_multi_loop E self answer grid_col these d)) = response_tbl d"
proof (induction these arbitrary: d)
  case Nil
  then show ?case by simp
next
  case (Cons this_answer rest)
  show ?case
    using Cons.IH
    by (auto simp: andThen_Inr_iff split: sum.splits dest!: GridAnswer_save_response_tbl)
qed

lemma grid_multi_response_tbl:
  "response_tbl (snd (grid_multi E self answer grid_col d)) = response_tbl d"
  by (simp add: grid_multi_def grid_multi_loop_response_tbl split: sum.splits)

lemma grid_cols_loop_response_tbl:
  "grid_cols_loop E self answer cols e_bound d = Inr (e_bound1, d1) \<Longrightarrow>
   response_tbl d1 = response_tbl d"
proof (induction cols arbitrary: e_bound d)
  case Nil
  then show ?case by simp
next
  case (Cons grid_col rest)
  have multi: "response_tbl d0 = response_tbl d" if "grid_multi E self answer grid_col d = (x, d0)" for x d0
    using grid_multi_response_tbl [of E self answer grid_col d] that by simp
  from Cons.prems show ?case
    by (auto split: if_splits sum.splits prod.splits option.splits
        dest!: Cons.IH grid_cell_response_tbl multi)
qed

lemma grid_rows_loop_response_tbl:
  "grid_rows_loop E self rows e_bound d = Inr d1 \<Longrightarrow> response_tbl d1 = response_tbl d"
proof (induction rows arbitrary: e_bound d)
  case Nil
  then show ?case by simp
next
  case (Cons answer rest)
  from Cons.prems obtain e_bound1 d0 where
    "grid_cols_loop E self answer (q_grid_cols (r_question self)) e_bound d = Inr (e_bound1, d0)"
    "grid_rows_loop E self rest e_bound1 d0 = Inr d1"
    by (auto simp: andThen_Inr_iff)
  then show ?case using Cons.IH grid_cols_loop_response_tbl by metis
qed

lemma normalize_response_tbl:
  "normalize E raw self d = Inr (self1, d1) \<Longrightarrow> response_tbl d1 = response_tbl d"
  unfolding normalize_def Let_def andThen_Inr_iff
  by (auto split: if_splits pyval.splits simp: andThen_Inr_iff delete_multianswers_def
      delete_gridanswers_def
      dest!: points_branch_response_tbl multi_select_loop_response_tbl grid_rows_loop_response_tbl)

lemma update_csv_row_frame:
  assumes "update_csv_row E self d = Inr d1"
  shows "respondant_tbl d1 = respondant_tbl d" "response_tbl d1 = response_tbl d"
    "multianswer_tbl d1 = multianswer_tbl d" "gridanswer_tbl d1 = gridanswer_tbl d"
    "location_tbl d1 = location_tbl d" "locationanswer_tbl d1 = locationanswer_tbl d"
  using assms by (auto simp: update_csv_row_def andThen_Inr_iff split: option.splits if_splits)

lemma Respondant_super_save_frame:
  "response_tbl (Respondant_super_save E self d) = response_tbl d"
  "multianswer_tbl (Respondant_super_save E self d) = multianswer_tbl d"
  "gridanswer_tbl (Respondant_super_save E self d) = gridanswer_tbl d"
  "location_tbl (Respondant_super_save E self d) = location_tbl d"
  "locationanswer_tbl (Respondant_super_save E self d) = locationanswer_tbl d"
  "csvrow_tbl (Respondant_super_save E self d) = csvrow_tbl d"
  by (simp_all add: Respondant_super_save_def)

lemma respondant_row_uuid: "rd_uuid (respondant_row E self) = rd_uuid self"
  by (simp add: respondant_row_def)

lemma Respondant_super_save_has_row:
  "\<exists>row\<in>set (respondant_tbl (Respondant_super_save E self d)). rd_uuid row = rd_uuid self"
proof (cases "rd_uuid self \<in> set (map rd_uuid (respondant_tbl d))")
  case True
  then obtain x where "x \<in> set (respondant_tbl d)" "rd_uuid x = rd_uuid self" by auto
  then have "respondant_row E self \<in> set (respondant_tbl (Respondant_super_save E self d))"
    using True by (force simp: Respondant_super_save_def)
  then show ?thesis using respondant_row_uuid by blast
next
  case False
  then show ?thesis by (simp add: Respondant_super_save_def respondant_row_uuid)
qed

lemma Respondant_super_save_row:
  assumes "row \<in> set (respondant_tbl (Respondant_super_save E self d))" "rd_uuid row = rd_uuid self"
  shows "row = respondant_row E self"
proof (cases "rd_uuid self \<in> set (map rd_uuid (respondant_tbl d))")
  case True
  then show ?thesis using assms by (auto simp: Respondant_super_save_def split: if_splits)
next
  case False
  with assms(1) have "row \<in> set (respondant_tbl d) \<or> row = respondant_row E self"
    by (auto simp: Respondant_super_save_def)
  moreover have "row \<notin> set (respondant_tbl d)"
    using False assms(2) by (metis image_eqI set_map)
  ultimately show ?thesis by simp
qed

text \<open>What a successful \<^verbatim>\<open>Respondant.save\<close> has done.\<close>

lemma Respondant_save_self:
  assumes "Respondant_save E self d = Inr (self1, d1)"
  shows "rd_locations self1 = Some (length (location_set d self1))"
    "rd_review_status self1 = rd_review_status self" "rd_status self1 = rd_status self"
  using assms
  by (auto simp: Respondant_save_def Let_def andThen_Inr_iff location_set_def
      split: option.splits if_splits)

lemma Respondant_save_frame:
  assumes "Respondant_save E self d = Inr (self1, d1)"
  shows "response_tbl d1 = response_tbl d"
    "multianswer_tbl d1 = multianswer_tbl d" "gridanswer_tbl d1 = gridanswer_tbl d"
    "location_tbl d1 = location_tbl d" "locationanswer_tbl d1 = locationanswer_tbl d"
  using assms
  by (auto simp: Respondant_save_def Let_def andThen_Inr_iff Respondant_super_save_frame
      split: option.splits if_splits dest: update_csv_row_frame)

lemma Respondant_save_tbl:
  assumes "Respondant_save E self d = Inr (self1, d1)"
  shows "\<exists>d0. respondant_tbl d1 = respondant_tbl (Respondant_super_save E self1 d0)"
  using assms
  by (auto simp: Respondant_save_def Let_def andThen_Inr_iff
      split: option.splits if_splits dest!: update_csv_row_frame(1))

lemma update_respondant_response_tbl:
  assumes "update_respondant E self d = Inr d1"
  shows "response_tbl d1 = response_tbl d"
proof -
  let ?slug = "replace_char (CHR ''-'') (CHR ''_'') (q_slug (r_question self))"
  from assms obtain found where found: "get_respondant d self = Inr found"
    and rest: "(case found of
          None \<Rightarrow> if object_attr E ?slug then Inl AttributeError else Inr d
        | Some respondant \<Rightarrow>
            if Respondant_hasattr E ?slug then
              (if ?slug \<in> set Respondant_text_columns then
                 (let d1 = d\<lparr>respondant_tbl :=
                        map (\<lambda>x. if rd_uuid x = rd_uuid respondant
                                  then Respondant_setattr ?slug (text_field E (r_answer self)) x
                                  else x) (respondant_tbl d)\<rparr>;
                      respondant1 = Respondant_setattr ?slug (r_answer self) respondant
                  in andThen (Respondant_save E respondant1 d1) (\<lambda>(respondant2, d2).
                       update_csv_row E respondant2 d2))
               else if ?slug \<in> set Respondant_methods then Inl FieldDoesNotExist
               else Inl (Unmodelled ?slug))
            else Inr d) = Inr d1"
    unfolding update_respondant_def Let_def andThen_Inr_iff by blast
  show ?thesis
  proof (cases found)
    case None
    with rest show ?thesis by (simp split: if_splits)
  next
    case (Some respondant)
    show ?thesis
    proof (cases "Respondant_hasattr E ?slug")
      case False
      with rest Some show ?thesis by simp
    next
      case True
      with rest Some show ?thesis
        by (auto simp: andThen_Inr_iff Let_def split: if_splits
            dest!: Respondant_save_frame(1) update_csv_row_frame(2))
    qed
  qed
qed

lemma replace_row_ids:
  assumes "r_id row = i"
  shows "map r_id (map (\<lambda>x. if r_id x = i then row else x) rows) = map r_id rows"
  using assms by (induction rows) auto

lemma response_row_r_id: "response_row E self = Inr row \<Longrightarrow> r_id row = r_id self"
  by (auto simp: response_row_def andThen_Inr_iff)

lemma Response_super_save_stored:
  assumes "Response_super_save E self d = Inr (created, self1, d1)"
  shows "stored d1 self1" "created \<longleftrightarrow> \<not> stored d self"
proof -
  from assms obtain row where row: "response_row E self = Inr row"
    by (auto simp: Response_super_save_def andThen_Inr_iff)
  note id = response_row_r_id [OF row]
  show "created \<longleftrightarrow> \<not> stored d self"
    using assms row
    by (auto simp: Response_super_save_def andThen_def Let_def split: if_splits option.splits)
  show "stored d1 self1"
  proof (cases "stored d self")
    case True
    with assms row have "self1 = self"
      "d1 = d\<lparr>response_tbl := map (\<lambda>x. if r_id x = r_id self then row else x) (response_tbl d)\<rparr>"
      by (auto simp: Response_super_save_def andThen_def)
    then show ?thesis using True replace_row_ids [OF id] by (simp add: stored_def)
  next
    case False
    with assms row id show ?thesis
      by (auto simp: Response_super_save_def andThen_def Let_def stored_def split: option.splits)
  qed
qed

termination Response_save
proof (relation "measure (\<lambda>x. case x of
    Inl (E, self, d) \<Rightarrow> (if stored d self then 1 else 4)
  | Inr (Inl (E, inst, created, d)) \<Rightarrow> (if created then (if stored d inst then 3 else 6) else 0)
  | Inr (Inr (E, self, d)) \<Rightarrow> (if stored d self then 2 else 5))", goal_cases)
  case 1
  show ?case by simp
next
  case (2 E self d self1 x created y self2 d1)
  then have "Response_super_save E self1 d = Inr (created, self2, d1)" by simp
  from Response_super_save_stored [OF this] 2(1) show ?case
    by (auto simp: stored_def)
next
  case (3 E inst created d)
  then show ?case by simp
next
  case (4 E self d raw x self1 d1 d2)
  then have "normalize E raw self d = Inr (self1, d1)" "update_respondant E self1 d1 = Inr d2"
    by simp_all
  then have "r_id self1 = r_id self" "response_tbl d2 = response_tbl d"
    using normalize_r_id normalize_response_tbl update_respondant_response_tbl by metis+
  then have "stored d2 self1 = stored d self" by (simp add: stored_def)
  then show ?case by simp
qed

declare Response_save.simps [simp del] save_related.simps [simp del]
  Response_save_related.simps [simp del]

section \<open>Notions of the claims\<close>

text \<open>
  What the claims speak of and the code has no name for: a save that only writes the row,
  one pass of normalisation, a question whose slug names no attribute of the Respondant,
  the trimmed name or text of a choice, and the type tags each method handles.
\<close>

definition write_row :: "env \<Rightarrow> response \<Rightarrow> db \<Rightarrow> error + response \<times> db" where
  "write_row E self d =
     (let self1 = (if r_ts self = None then self\<lparr>r_ts := Some (utcnow E)\<rparr> else self) in
      andThen (response_row E self1) (\<lambda>row.
        Inr (self1, d\<lparr>response_tbl := map (\<lambda>x. if r_id x = r_id self then row else x) (response_tbl d)\<rparr>)))"

definition normalize_once :: "env \<Rightarrow> response \<Rightarrow> db \<Rightarrow> error + response \<times> db" where
  "normalize_once E self d =
     (case r_answer_raw self of
        None \<Rightarrow> Inr (self, d)
      | Some raw \<Rightarrow>
          if raw \<noteq> [] then
            andThen (normalize E raw self d) (\<lambda>(self1, d1).
            andThen (update_respondant E self1 d1) (\<lambda>d2. write_row E self1 d2))
          else Inr (self, d))"

definition slug_is_no_attribute :: "env \<Rightarrow> response \<Rightarrow> db \<Rightarrow> bool" where
  "slug_is_no_attribute E self d =
     (let question_slug = replace_char (CHR ''-'') (CHR ''_'') (q_slug (r_question self)) in
      case r_respondant self of
        None \<Rightarrow> \<not> object_attr E question_slug
      | Some u \<Rightarrow> find (\<lambda>x. rd_uuid x = u) (respondant_tbl d) \<noteq> None \<and>
                  \<not> Respondant_hasattr E question_slug)"

definition trimmed_name_or_text :: "env \<Rightarrow> pyval \<Rightarrow> string option" where
  "trimmed_name_or_text E x =
     (case x of
        PDict kvs \<Rightarrow>
          (let text = (case map_of kvs ''text'' of
                         Some (PStr (c # cs)) \<Rightarrow> Some (str_strip E (c # cs)) | _ \<Rightarrow> None) in
           case map_of kvs ''name'' of
             Some (PStr (c # cs)) \<Rightarrow> Some (str_strip E (c # cs))
           | Some v \<Rightarrow> if py_truth v then None else text
           | None \<Rightarrow> text)
      | _ \<Rightarrow> None)"



section \<open>Example data\<close>

text \<open>
  An environment and rows for the examples: the library functions are tables of their
  results at the inputs the examples use.
\<close>

definition multi_raw :: string where
  \<open>multi_raw = ''[{"name": " A ", "label": "a"}, {"text": "B"}]''\<close>

definition grid_raw :: string where
  \<open>grid_raw = ''[{"text": "Row 1", "label": "row-1", "qty": 3, "kinds": ["a", "b"]}]''\<close>

definition map_inner :: string where
  \<open>map_inner = ''[{"lat": 1.0, "lng": 2.0, "answers": [[{"text": "x", "label": "x"}]]}]''\<close>

definition json_quote :: "string \<Rightarrow> string" where
  "json_quote s =
     [CHR 0x22] @ concat (map (\<lambda>c. if c = CHR 0x22 then [CHR 0x5C, CHR 0x22] else [c]) s) @ [CHR 0x22]"

definition map_raw :: string where
  "map_raw = json_quote map_inner"

definition abc_raw :: string where
  \<open>abc_raw = ''"abc"''\<close>

definition blank_raw :: string where
  \<open>blank_raw = ''[{"name": ""}]''\<close>

definition stale_raw :: string where
  \<open>stale_raw = ''[{"name": "A"}, {"name": ""}]''\<close>

definition grid_blank_raw :: string where
  \<open>grid_blank_raw = ''[{"text": "Row 1", "label": "row-1", "qty": "", "kinds": ["a", "b"]}]''\<close>

definition grid_big_raw :: string where
  \<open>grid_big_raw = ''[{"text": "Row 1", "label": "row-1", "qty": 123456789, "kinds": ["a", "b"]}]''\<close>

definition map_answers :: pyval where
  "map_answers = PList [PList [PDict [(''text'', PStr ''x''), (''label'', PStr ''x'')]]]"

definition example_loads :: "string \<Rightarrow> pyval option" where
  \<open>example_loads s =
     (if s = multi_raw then
        Some (PList [PDict [(''name'', PStr '' A ''), (''label'', PStr ''a'')],
                     PDict [(''text'', PStr ''B'')]])
      else if s = grid_raw then
        Some (PList [PDict [(''text'', PStr ''Row 1''), (''label'', PStr ''row-1''),
                            (''qty'', PInt 3), (''kinds'', PList [PStr ''a'', PStr ''b''])]])
      else if s = grid_blank_raw then
        Some (PList [PDict [(''text'', PStr ''Row 1''), (''label'', PStr ''row-1''),
                            (''qty'', PStr []), (''kinds'', PList [PStr ''a'', PStr ''b''])]])
      else if s = grid_big_raw then
        Some (PList [PDict [(''text'', PStr ''Row 1''), (''label'', PStr ''row-1''),
                            (''qty'', PInt 123456789), (''kinds'', PList [PStr ''a'', PStr ''b''])]])
      else if s = blank_raw then Some (PList [PDict [(''name'', PStr [])]])
      else if s = stale_raw then
        Some (PList [PDict [(''name'', PStr ''A'')], PDict [(''name'', PStr [])]])
      else if s = map_raw then Some (PStr map_inner)
      else if s = map_inner then
        Some (PList [PDict [(''lat'', PFloat 1), (''lng'', PFloat 2), (''answers'', map_answers)]])
      else if s = ''true'' then Some (PBool True)
      else if s = abc_raw then Some (PStr ''abc'')
      else None)\<close>

definition example_str :: "pyval \<Rightarrow> string" where
  \<open>example_str v =
     (if v = PFloat 1 then ''1.0''
      else if v = PFloat 2 then ''2.0''
      else if v = map_answers then ''[[{'text': 'x', 'label': 'x'}]]''
      else if v = PBool True then ''True''
      else if v = PDatetime 0 then ''1970-01-01 00:00:00+00:00''
      else ''None'')\<close>

text \<open>\<^verbatim>\<open>strip()\<close> on texts whose only blanks are the space and the control characters
  from tab to carriage return.\<close>

definition example_blank :: "char \<Rightarrow> bool" where
  "example_blank c = (c \<in> {CHR '' '', CHR 0x09, CHR 0x0A, CHR 0x0B, CHR 0x0C, CHR 0x0D})"

definition example_strip :: "string \<Rightarrow> string" where
  "example_strip s = rev (dropWhile example_blank (rev (dropWhile example_blank s)))"

text \<open>A decimal column takes a number with at most \<open>max_digits - decimal_places\<close> digits
  before the point.\<close>

definition example_decimal_field :: "nat \<Rightarrow> nat \<Rightarrow> pyval \<Rightarrow> pyval option" where
  "example_decimal_field max_digits decimal_places v =
     (case v of
        PInt i \<Rightarrow> if \<bar>i\<bar> < 10 ^ (max_digits - decimal_places)
                  then Some (PDecimal (of_int i)) else None
      | PDecimal x \<Rightarrow> if \<bar>x\<bar> < 10 ^ (max_digits - decimal_places)
                      then Some (PDecimal x) else None
      | PBool b \<Rightarrow> Some (PDecimal (if b then 1 else 0))
      | _ \<Rightarrow> None)"

definition example_env :: env where
  "example_env = \<lparr>
     py_loads = example_loads,
     py_dumps = (\<lambda>flat. ''{}''),
     py_str = example_str,
     str_strip = example_strip,
     py_Decimal = (\<lambda>s. if s = ''1.0'' then Some 1 else if s = ''2.0'' then Some 2 else None),
     decimal_field = example_decimal_field,
     py_strptime = (\<lambda>s. None),
     py_strftime = (\<lambda>t. ''01/01/1970''),
     utcnow = 0,
     object_attr = (\<lambda>name. False),
     model_attr = (\<lambda>name. False)\<rparr>"

definition example_question :: "string \<Rightarrow> string \<Rightarrow> question" where
  "example_question ty slug = \<lparr>q_slug = slug, q_type = ty, q_grid_cols = []\<rparr>"

definition example_response :: "string \<Rightarrow> string option \<Rightarrow> response" where
  "example_response ty raw = \<lparr>r_id = Some 1, r_question = example_question ty ''q-1'',
     r_respondant = None, r_answer = PNone, r_answer_number = PNone, r_answer_raw = raw,
     r_answer_date = None, r_ts = Some 0\<rparr>"

definition example_respondant :: respondant where
  "example_respondant = \<lparr>rd_uuid = ''a:b'', rd_gfk_returnURL = PNone, rd_complete = False,
     rd_status = PNone, rd_review_status = PStr ''needs review'', rd_review_comment = PNone,
     rd_last_question = PNone, rd_vendor = PNone, rd_survey_site = PNone,
     rd_buy_or_catch = PNone, rd_how_sold = PNone, rd_locations = None, rd_ts = None,
     rd_email = PNone, rd_surveyor = None, rd_csv_row = None\<rparr>"

definition empty_db :: db where
  "empty_db = \<lparr>respondant_tbl = [], response_tbl = [], multianswer_tbl = [], gridanswer_tbl = [],
     location_tbl = [], locationanswer_tbl = [], csvrow_tbl = []\<rparr>"

definition example_location :: location where
  "example_location = \<lparr>l_id = 1, l_response = 7, l_respondant = Some ''a_b'',
     l_lat = PDecimal 1, l_lng = PDecimal 2\<rparr>"

definition multi_response :: response where
  "multi_response = example_response ''multi-select'' (Some multi_raw)"


definition number_response :: "string \<Rightarrow> response" where
  "number_response raw = example_response ''integer'' (Some raw)"

definition flat_respondant :: respondant where
  "flat_respondant = example_respondant\<lparr>rd_uuid := ''r1'', rd_csv_row := Some 1\<rparr>"

definition flat_db :: db where
  "flat_db = empty_db\<lparr>
     response_tbl := [(example_response ''text'' (Some abc_raw))
        \<lparr>r_respondant := Some ''r1'', r_answer := PStr ''abc''\<rparr>],
     csvrow_tbl := [\<lparr>c_id = 1, c_json_data = None\<rparr>]\<rparr>"



definition grid_response :: response where
  "grid_response = (example_response ''grid'' (Some grid_raw))\<lparr>r_question :=
     \<lparr>q_slug = ''q-1'', q_type = ''grid'', q_grid_cols =
        [\<lparr>o_text = ''Quantity'', o_label = ''qty'', o_type = ''integer''\<rparr>,
         \<lparr>o_text = ''Kinds'', o_label = ''kinds'', o_type = ''multi-select''\<rparr>]\<rparr>\<rparr>"

definition map_response :: response where
  "map_response = example_response ''map-multipoint'' (Some map_raw)"

lemmas example_defs = example_env_def example_respondant_def empty_db_def example_location_def
  example_response_def example_question_def example_decimal_field_def

lemmas example_raw_defs = abc_raw_def multi_raw_def grid_raw_def map_raw_def map_inner_def
  json_quote_def blank_raw_def stale_raw_def grid_blank_raw_def grid_big_raw_def

lemmas Respondant_save_defs = Respondant_save_def Let_def replace_char_def location_set_def
      fresh_id_def andThen_def update_csv_row_def Respondant_super_save_def
      Respondant_generate_flat_dict_def response_set_def

lemmas Response_save_related_defs = Response_save_related.simps Response_save.simps
  save_related.simps Response_super_save_def response_row_def decimal_column_def
  update_respondant_def get_respondant_def normalize_def loads_def orRaise_def andThen_def Let_def
  numeric_types_def stored_def

section \<open>Saving a Respondant: the location count and the review status\<close>

text \<open>
  C7. After \<^verbatim>\<open>Respondant.save\<close> the \<^verbatim>\<open>locations\<close> field, of the instance and of its
  stored row, is the number of Location rows that point to the Respondant.
\<close>

theorem Respondant_save_locations:
  assumes "Respondant_save E self d = Inr (self1, d1)"
  shows "rd_locations self1 = Some (length (location_set d1 self1)) \<and>
         (\<exists>row\<in>set (respondant_tbl d1). rd_uuid row = rd_uuid self1) \<and>
         (\<forall>row\<in>set (respondant_tbl d1). rd_uuid row = rd_uuid self1 \<longrightarrow>
            rd_locations row = Some (length (location_set d1 self1)))"
proof -
  have loc: "location_set d1 self1 = location_set d self1"
    using Respondant_save_frame(4) [OF assms] by (simp add: location_set_def)
  have self1: "rd_locations self1 = Some (length (location_set d1 self1))"
    using Respondant_save_self(1) [OF assms] loc by simp
  obtain d0 where tbl: "respondant_tbl d1 = respondant_tbl (Respondant_super_save E self1 d0)"
    using Respondant_save_tbl [OF assms] by blast
  have "\<exists>row\<in>set (respondant_tbl d1). rd_uuid row = rd_uuid self1"
    unfolding tbl by (rule Respondant_super_save_has_row)
  moreover have "rd_locations row = Some (length (location_set d1 self1))"
    if "row \<in> set (respondant_tbl d1)" "rd_uuid row = rd_uuid self1" for row
  proof -
    have "row = respondant_row E self1"
      using that Respondant_super_save_row unfolding tbl by blast
    then show ?thesis using self1 by (simp add: respondant_row_def)
  qed
  ultimately show ?thesis using self1 by blast
qed

theorem Respondant_save_locations_witness:
  "\<exists>self1 d1. Respondant_save example_env example_respondant
       (empty_db\<lparr>location_tbl := [example_location]\<rparr>) = Inr (self1, d1) \<and>
     rd_uuid self1 = ''a_b'' \<and> location_set d1 self1 = [example_location] \<and>
     rd_locations self1 = Some 1 \<and> map rd_locations (respondant_tbl d1) = [Some 1]"
proof -
  obtain self1 d1 where run: "Respondant_save example_env example_respondant
       (empty_db\<lparr>location_tbl := [example_location]\<rparr>) = Inr (self1, d1)"
    and uuid: "rd_uuid self1 = ''a_b''"
    and tbl: "location_tbl d1 = [example_location]" "length (respondant_tbl d1) = 1"
    by (simp add: Respondant_save_defs example_defs)
  have set: "location_set d1 self1 = [example_location]"
    using uuid tbl by (simp add: location_set_def example_location_def)
  from Respondant_save_locations [OF run] set
  have "rd_locations self1 = Some 1"
    and "\<forall>row\<in>set (respondant_tbl d1). rd_uuid row = rd_uuid self1 \<longrightarrow> rd_locations row = Some 1"
    and "\<exists>row\<in>set (respondant_tbl d1). rd_uuid row = rd_uuid self1"
    by simp_all
  moreover from this tbl(2) have "map rd_locations (respondant_tbl d1) = [Some 1]"
    by (cases "respondant_tbl d1") auto
  ultimately show ?thesis using run uuid set
    by (intro exI [of _ self1] exI [of _ d1]) simp
qed

text \<open>
  C8. Setting \<^verbatim>\<open>status\<close> to \<^verbatim>\<open>"terminate"\<close> and saving leaves \<^verbatim>\<open>review_status\<close> as it
  was, on the instance and in its stored row (a text column, which holds the value's
  text).
\<close>

theorem terminate_keeps_review_status:
  assumes "Respondant_save E (self\<lparr>rd_status := PStr ''terminate''\<rparr>) d = Inr (self1, d1)"
  shows "rd_review_status self1 = rd_review_status self \<and>
         rd_status self1 = PStr ''terminate'' \<and>
         (\<forall>row\<in>set (respondant_tbl d1). rd_uuid row = rd_uuid self1 \<longrightarrow>
            rd_review_status row = text_field E (rd_review_status self) \<and>
            rd_status row = PStr ''terminate'')"
proof -
  have self1: "rd_review_status self1 = rd_review_status self" "rd_status self1 = PStr ''terminate''"
    using Respondant_save_self(2,3) [OF assms] by simp_all
  obtain d0 where tbl: "respondant_tbl d1 = respondant_tbl (Respondant_super_save E self1 d0)"
    using Respondant_save_tbl [OF assms] by blast
  have "rd_review_status row = text_field E (rd_review_status self) \<and> rd_status row = PStr ''terminate''"
    if "row \<in> set (respondant_tbl d1)" "rd_uuid row = rd_uuid self1" for row
  proof -
    have "row = respondant_row E self1"
      using that Respondant_super_save_row unfolding tbl by blast
    then show ?thesis using self1 by (simp add: respondant_row_def)
  qed
  then show ?thesis using self1 by blast
qed

theorem terminate_keeps_review_status_witness:
  "\<exists>self1 d1. Respondant_save example_env (example_respondant\<lparr>rd_status := PStr ''terminate''\<rparr>)
       empty_db = Inr (self1, d1) \<and>
     rd_review_status self1 = PStr ''needs review'' \<and> rd_status self1 = PStr ''terminate'' \<and>
     map rd_review_status (respondant_tbl d1) = [PStr ''needs review''] \<and>
     map rd_status (respondant_tbl d1) = [PStr ''terminate'']"
proof -
  obtain self1 d1 where run: "Respondant_save example_env
       (example_respondant\<lparr>rd_status := PStr ''terminate''\<rparr>) empty_db = Inr (self1, d1)"
    and tbl: "map rd_uuid (respondant_tbl d1) = [rd_uuid self1]"
    by (simp add: Respondant_save_defs example_defs respondant_row_def)
  from tbl obtain row where row: "respondant_tbl d1 = [row]" "rd_uuid row = rd_uuid self1"
    by (cases "respondant_tbl d1") auto
  from terminate_keeps_review_status [OF run] row
  have "rd_review_status self1 = PStr ''needs review''" "rd_status self1 = PStr ''terminate''"
    "rd_review_status row = PStr ''needs review''" "rd_status row = PStr ''terminate''"
    by (simp_all add: example_respondant_def)
  then show ?thesis using run row
    by (intro exI [of _ self1] exI [of _ d1]) simp
qed

section \<open>The flat export\<close>

lemma flat_update_all_None:
  "response \<in> set rs \<Longrightarrow> Response_generate_flat_dict E d response = Inr None \<Longrightarrow>
   \<exists>e. flat_update_all E d rs flat = Inl e"
proof (induction rs arbitrary: flat)
  case Nil
  then show ?case by simp
next
  case (Cons r rs)
  then show ?case by (cases "r = response") (auto split: sum.splits option.splits)
qed

text \<open>
  C10. Flattening a Respondant succeeds only when every Response it owns has a non-empty
  \<^verbatim>\<open>answer_raw\<close>: a Response whose \<^verbatim>\<open>answer_raw\<close> is null or empty flattens to
  \<^verbatim>\<open>None\<close>, and the Respondant's flat dict is then an exception, not a mapping without
  that Response.
\<close>

theorem flatten_fails_without_answer_raw:
  assumes "response \<in> set (response_set d self)" and "\<not> raw_truth (r_answer_raw response)"
  shows "Response_generate_flat_dict E d response = Inr None \<and>
         (\<exists>e. Respondant_generate_flat_dict E d self = Inl e)"
proof -
  have none: "Response_generate_flat_dict E d response = Inr None"
    using assms(2) by (simp add: Response_generate_flat_dict_def)
  then show ?thesis
    using assms(1) flat_update_all_None unfolding Respondant_generate_flat_dict_def Let_def
    by blast
qed

theorem flatten_fails_without_answer_raw_witness:
  "Response_generate_flat_dict example_env
     (empty_db\<lparr>response_tbl := [(example_response ''text'' None)\<lparr>r_respondant := Some ''a:b''\<rparr>]\<rparr>)
     ((example_response ''text'' None)\<lparr>r_respondant := Some ''a:b''\<rparr>) = Inr None \<and>
   (\<exists>e. Respondant_generate_flat_dict example_env
     (empty_db\<lparr>response_tbl := [(example_response ''text'' None)\<lparr>r_respondant := Some ''a:b''\<rparr>]\<rparr>)
     example_respondant = Inl e)"
  using flatten_fails_without_answer_raw [of
      "(example_response ''text'' None)\<lparr>r_respondant := Some ''a:b''\<rparr>"
      "empty_db\<lparr>response_tbl := [(example_response ''text'' None)\<lparr>r_respondant := Some ''a:b''\<rparr>]\<rparr>"
      example_respondant example_env]
  by (simp add: response_set_def empty_db_def example_response_def example_respondant_def)

lemma Response_generate_flat_dict_cong:
  assumes "gridanswer_set d2 r = gridanswer_set d1 r"
  shows "Response_generate_flat_dict E d2 r = Response_generate_flat_dict E d1 r"
  unfolding Response_generate_flat_dict_def assms by (rule refl)

lemma flat_update_all_cong:
  assumes "\<forall>r\<in>set rs. gridanswer_set d2 r = gridanswer_set d1 r"
  shows "flat_update_all E d2 rs flat = flat_update_all E d1 rs flat"
  using assms
proof (induction rs arbitrary: flat)
  case Nil
  then show ?case by simp
next
  case (Cons r rs)
  have r: "Response_generate_flat_dict E d2 r = Response_generate_flat_dict E d1 r"
    using Cons.prems by (intro Response_generate_flat_dict_cong) simp
  have rs: "flat_update_all E d2 rs flat1 = flat_update_all E d1 rs flat1" for flat1
    using Cons.prems by (intro Cons.IH) simp
  show ?case by (simp only: flat_update_all.simps r rs)
qed

text \<open>
  C4. \<^verbatim>\<open>Respondant.generate_flat_dict\<close> writes nothing, and what it returns is fixed by
  the Respondant, its Responses and their grid answers: run again in any state of the
  database that has left these unchanged, it returns the same mapping (or raises the same
  exception).
\<close>

theorem flatten_twice_same_mapping:
  assumes "response_set d2 self = response_set d1 self"
    and "\<forall>r\<in>set (response_set d1 self). gridanswer_set d2 r = gridanswer_set d1 r"
  shows "Respondant_generate_flat_dict E d2 self = Respondant_generate_flat_dict E d1 self"
  unfolding Respondant_generate_flat_dict_def Let_def assms(1)
  by (rule flat_update_all_cong [OF assms(2)])

theorem flatten_twice_same_mapping_witness:
  "update_csv_row example_env flat_respondant flat_db =
     Inr (flat_db\<lparr>csvrow_tbl := [\<lparr>c_id = 1, c_json_data = Some ''{}''\<rparr>]\<rparr>) \<and>
   Respondant_generate_flat_dict example_env
     (flat_db\<lparr>csvrow_tbl := [\<lparr>c_id = 1, c_json_data = Some ''{}''\<rparr>]\<rparr>) flat_respondant =
   Respondant_generate_flat_dict example_env flat_db flat_respondant \<and>
   (\<exists>flat. Respondant_generate_flat_dict example_env flat_db flat_respondant = Inr flat \<and>
      flat ''q-1'' = Some (PStr ''abc'') \<and> flat ''model-review-status'' = Some (PStr ''Needs Review''))"
proof -
  have run: "\<exists>flat. Respondant_generate_flat_dict example_env flat_db flat_respondant = Inr flat \<and>
      flat ''q-1'' = Some (PStr ''abc'') \<and> flat ''model-review-status'' = Some (PStr ''Needs Review'')"
    by (simp add: Respondant_generate_flat_dict_def Response_generate_flat_dict_def response_set_def
        flat_scalar_types_def get_review_status_display_def REVIEW_STATE_CHOICES_def
        flat_db_def flat_respondant_def example_defs abc_raw_def Let_def)
  then have "update_csv_row example_env flat_respondant flat_db =
      Inr (flat_db\<lparr>csvrow_tbl := [\<lparr>c_id = 1, c_json_data = Some ''{}''\<rparr>]\<rparr>)"
    by (auto simp: update_csv_row_def andThen_def flat_db_def flat_respondant_def example_defs)
  moreover have "Respondant_generate_flat_dict example_env
       (flat_db\<lparr>csvrow_tbl := [\<lparr>c_id = 1, c_json_data = Some ''{}''\<rparr>]\<rparr>) flat_respondant =
     Respondant_generate_flat_dict example_env flat_db flat_respondant"
    by (rule flatten_twice_same_mapping) (simp_all add: response_set_def gridanswer_set_def)
  ultimately show ?thesis using run by simp
qed


section \<open>One pass of normalisation\<close>

lemma Response_save_stored:
  assumes "stored d self"
  shows "Response_save E self d = write_row E self d"
proof -
  let ?self = "if r_ts self = None then self\<lparr>r_ts := Some (utcnow E)\<rparr> else self"
  have st: "stored d ?self" using assms by (simp add: stored_def)
  have "Response_save E self d =
      andThen (Response_super_save E ?self d) (\<lambda>(created, self2, d1). save_related E self2 created d1)"
    by (simp add: Response_save.simps Let_def andThen_def)
  also have "\<dots> = write_row E self d"
    unfolding Response_super_save_def write_row_def Let_def using st
    by (cases "response_row E ?self") (simp_all add: andThen_def save_related.simps)
  finally show ?thesis .
qed

lemma Response_save_related_stored:
  assumes "stored d self"
  shows "Response_save_related E self d = normalize_once E self d"
proof -
  have "Response_save E self1 d2 = write_row E self1 d2"
    if "normalize E raw self d = Inr (self1, d1)" "update_respondant E self1 d1 = Inr d2"
    for raw self1 d1 d2
  proof -
    have "r_id self1 = r_id self" "response_tbl d2 = response_tbl d"
      using that normalize_r_id normalize_response_tbl update_respondant_response_tbl by metis+
    then have "stored d2 self1" using assms by (simp add: stored_def)
    then show ?thesis by (rule Response_save_stored)
  qed
  then show ?thesis
    by (auto simp: Response_save_related.simps normalize_once_def andThen_def
        split: option.splits sum.splits)
qed

lemma Response_save_unstored:
  assumes "\<not> stored d self"
  shows "Response_save E self d =
     andThen (Response_super_save E
               (if r_ts self = None then self\<lparr>r_ts := Some (utcnow E)\<rparr> else self) d)
       (\<lambda>(created, self1, d1). normalize_once E self1 d1)"
proof -
  let ?self = "if r_ts self = None then self\<lparr>r_ts := Some (utcnow E)\<rparr> else self"
  have unstored: "\<not> stored d ?self" using assms by (simp add: stored_def)
  show ?thesis
  proof (cases "Response_super_save E ?self d")
    case (Inl e)
    then show ?thesis by (simp add: Response_save.simps andThen_def Let_def)
  next
    case (Inr x)
    obtain created self1 d1 where x: "x = (created, self1, d1)" by (cases x)
    from Response_super_save_stored [OF Inr [unfolded x]] unstored
    have "created" "stored d1 self1" by simp_all
    then show ?thesis
      using Inr x
      by (simp add: Response_save.simps save_related.simps andThen_def Let_def
          Response_save_related_stored)
  qed
qed

lemma update_respondant_no_attribute:
  "slug_is_no_attribute E self d \<Longrightarrow> update_respondant E self d = Inr d"
  by (auto simp: slug_is_no_attribute_def update_respondant_def get_respondant_def Let_def
      andThen_def split: option.splits)

lemma slug_is_no_attribute_cong:
  assumes "r_question self1 = r_question self" "r_respondant self1 = r_respondant self"
    "respondant_tbl d1 = respondant_tbl d"
  shows "slug_is_no_attribute E self1 d1 = slug_is_no_attribute E self d"
  using assms by (simp add: slug_is_no_attribute_def Let_def split: option.splits)

lemma write_row_Inr:
  assumes "decimal_column E 10 2 (r_answer_number self) = Some n"
  shows "\<exists>self1 d1. write_row E self d = Inr (self1, d1) \<and>
     r_id self1 = r_id self \<and> r_answer self1 = r_answer self \<and>
     r_answer_number self1 = r_answer_number self \<and> r_question self1 = r_question self \<and>
     multianswer_tbl d1 = multianswer_tbl d \<and> gridanswer_tbl d1 = gridanswer_tbl d \<and>
     location_tbl d1 = location_tbl d \<and> locationanswer_tbl d1 = locationanswer_tbl d \<and>
     respondant_tbl d1 = respondant_tbl d \<and>
     response_tbl d1 =
       map (\<lambda>x. if r_id x = r_id self then self1\<lparr>r_answer := text_field E (r_answer self), r_answer_number := n\<rparr> else x)
         (response_tbl d)"
  using assms by (simp add: write_row_def response_row_def Let_def andThen_def orRaise_def)

text \<open>One pass of normalisation for a question whose slug names no attribute of the
  Respondant: the branch, then the row is written.\<close>

lemma normalize_once_no_attribute:
  assumes "r_answer_raw self = Some raw" "raw \<noteq> []"
    and "normalize E raw self d = Inr (self1, d1)"
    and "slug_is_no_attribute E self1 d1"
  shows "normalize_once E self d = write_row E self1 d1"
  using assms by (simp add: normalize_once_def andThen_def update_respondant_no_attribute)

section \<open>Multi-select questions\<close>

lemma name_or_text_trimmed:
  assumes "trimmed_name_or_text E answer = Some t"
  shows "name_or_text E answer previous assign = Inr (assign t)"
  using assms
  by (auto simp: trimmed_name_or_text_def name_or_text_def py_get_def andThen_def orRaise_def Let_def
      split: pyval.splits option.splits list.splits if_splits)

lemma trimmed_is_dict: "trimmed_name_or_text E answer = Some t \<Longrightarrow> \<exists>kvs. answer = PDict kvs"
  by (auto simp: trimmed_name_or_text_def split: pyval.splits)

lemma multi_select_loop_rows:
  assumes "r_id self = Some i" "those (map (trimmed_name_or_text E) elements) = Some texts"
  shows "\<exists>new. multi_select_loop E self elements answer_text answers d =
            Inr (answers @ texts, d\<lparr>multianswer_tbl := multianswer_tbl d @ new\<rparr>) \<and>
          map ma_answer_text new = texts \<and> (\<forall>m\<in>set new. ma_response m = i)"
  using assms(2)
proof (induction elements arbitrary: texts answer_text answers d)
  case Nil
  then show ?case by simp
next
  case (Cons answer rest)
  from Cons.prems obtain t ts where t: "trimmed_name_or_text E answer = Some t"
    and ts: "those (map (trimmed_name_or_text E) rest) = Some ts" and texts: "texts = t # ts"
    by (auto split: option.splits)
  obtain kvs where kvs: "answer = PDict kvs" using trimmed_is_dict [OF t] by blast
  let ?row = "\<lparr>ma_id = fresh_id (map ma_id (multianswer_tbl d)), ma_response = i,
      ma_answer_text = t,
      ma_answer_label = text_field E (case map_of kvs ''label'' of None \<Rightarrow> PNone | Some v \<Rightarrow> v)\<rparr>"
  let ?d1 = "d\<lparr>multianswer_tbl := multianswer_tbl d @ [?row]\<rparr>"
  have step: "multi_select_loop E self (answer # rest) answer_text answers d =
      multi_select_loop E self rest (Some t) (answers @ [t]) ?d1"
    using assms(1) name_or_text_trimmed [OF t, of answer_text Some] unfolding kvs
    by (simp add: andThen_def orRaise_def MultiAnswer_save_def)
  from Cons.IH [OF ts, of "Some t" "answers @ [t]" ?d1]
  obtain new where new: "multi_select_loop E self rest (Some t) (answers @ [t]) ?d1 =
      Inr ((answers @ [t]) @ ts, ?d1\<lparr>multianswer_tbl := multianswer_tbl ?d1 @ new\<rparr>)"
    "map ma_answer_text new = ts" "\<forall>m\<in>set new. ma_response m = i"
    by blast
  show ?case
    by (rule exI [of _ "?row # new"]) (use step new texts in simp)
qed

lemma normalize_multi_select:
  assumes "q_type (r_question self) \<in> set [''auto-multi-select'', ''multi-select'']"
    and "r_id self = Some i" "py_loads E raw = Some (PList elements)"
    and "those (map (trimmed_name_or_text E) elements) = Some texts"
  shows "\<exists>new. normalize E raw self d =
            Inr (self\<lparr>r_answer := PStr (join '', '' texts)\<rparr>,
                 d\<lparr>multianswer_tbl :=
                     filter (\<lambda>m. ma_response m \<noteq> i) (multianswer_tbl d) @ new\<rparr>) \<and>
          map ma_answer_text new = texts \<and> (\<forall>m\<in>set new. ma_response m = i)"
proof -
  let ?self = "self\<lparr>r_answer := PList elements\<rparr>"
  have id: "r_id ?self = Some i" using assms(2) by simp
  from multi_select_loop_rows [OF id assms(4), where answer_text = None and answers = "[]"
      and d = "delete_multianswers ?self d"]
  obtain new where new: "multi_select_loop E ?self elements None [] (delete_multianswers ?self d) =
      Inr ([] @ texts, (delete_multianswers ?self d)\<lparr>multianswer_tbl :=
             multianswer_tbl (delete_multianswers ?self d) @ new\<rparr>)"
    "map ma_answer_text new = texts" "\<forall>m\<in>set new. ma_response m = i"
    by blast
  have "normalize E raw self d =
      Inr (self\<lparr>r_answer := PStr (join '', '' texts)\<rparr>,
           d\<lparr>multianswer_tbl := filter (\<lambda>m. ma_response m \<noteq> i) (multianswer_tbl d) @ new\<rparr>)"
    using assms(1,2,3) new(1)
    by (auto simp: normalize_def loads_def orRaise_def andThen_def Let_def numeric_types_def
        delete_multianswers_def)
  then show ?thesis using new(2,3) by blast
qed


lemma multi_texts:
  "those (map (trimmed_name_or_text example_env)
     [PDict [(''name'', PStr '' A ''), (''label'', PStr ''a'')], PDict [(''text'', PStr ''B'')]]) =
   Some [''A'', ''B'']"
  by (simp add: trimmed_name_or_text_def example_env_def example_strip_def example_blank_def)



section \<open>Normalisation runs once\<close>

text \<open>
  C9. \<^verbatim>\<open>Response.save\<close> on a Response whose row is stored only writes the row, whatever
  its \<^verbatim>\<open>answer_raw\<close> is now. On a Response that has no row yet it inserts the row and then
  runs one pass of normalisation, whose closing \<^verbatim>\<open>self.save()\<close> only writes the row.
\<close>

theorem normalization_runs_once_at_creation:
  "(stored d self \<longrightarrow> Response_save E self d = write_row E self d) \<and>
   (\<not> stored d self \<longrightarrow>
      Response_save E self d =
        andThen (Response_super_save E
                  (if r_ts self = None then self\<lparr>r_ts := Some (utcnow E)\<rparr> else self) d)
          (\<lambda>(created, self1, d1). normalize_once E self1 d1))"
  using Response_save_stored Response_save_unstored by blast

text \<open>One pass on the example multi-select Response.\<close>

lemma multi_response_once:
  assumes "response_tbl d = [row]"
  shows "\<exists>self1 d1. normalize_once example_env multi_response d = Inr (self1, d1) \<and>
     map ma_answer_text (multianswer_tbl d1) = map ma_answer_text (filter (\<lambda>m. ma_response m \<noteq> 1) (multianswer_tbl d)) @ [''A'', ''B''] \<and>
     r_answer self1 = PStr ''A, B''"
proof -
  let ?self = "multi_response\<lparr>r_answer := PStr (join '', '' [''A'', ''B''])\<rparr>"
  have "\<exists>new. normalize example_env multi_raw multi_response d =
      Inr (?self, d\<lparr>multianswer_tbl := filter (\<lambda>m. ma_response m \<noteq> 1) (multianswer_tbl d) @ new\<rparr>) \<and>
      map ma_answer_text new = [''A'', ''B''] \<and> (\<forall>m\<in>set new. ma_response m = 1)"
    by (rule normalize_multi_select [OF _ _ _ multi_texts])
      (simp_all add: multi_response_def example_defs example_loads_def)
  then obtain new where norm: "normalize example_env multi_raw multi_response d =
      Inr (?self, d\<lparr>multianswer_tbl := filter (\<lambda>m. ma_response m \<noteq> 1) (multianswer_tbl d) @ new\<rparr>)"
    and new: "map ma_answer_text new = [''A'', ''B'']"
    by (elim exE conjE)
  let ?d = "d\<lparr>multianswer_tbl := filter (\<lambda>m. ma_response m \<noteq> 1) (multianswer_tbl d) @ new\<rparr>"
  have attr: "slug_is_no_attribute example_env ?self ?d"
    by (simp add: slug_is_no_attribute_def multi_response_def example_defs)
  have raw: "r_answer_raw multi_response = Some multi_raw" "multi_raw \<noteq> []"
    by (simp_all add: multi_response_def example_defs multi_raw_def)
  have once: "normalize_once example_env multi_response d = write_row example_env ?self ?d"
    by (rule normalize_once_no_attribute [OF raw norm attr])
  have dec: "decimal_column example_env 10 2 (r_answer_number ?self) = Some PNone"
    by (simp add: decimal_column_def multi_response_def example_defs)
  from write_row_Inr [OF dec, of ?d] once new show ?thesis by auto
qed

theorem normalization_runs_once_at_creation_witness:
  "(\<exists>self1 d1. Response_save example_env multi_response
        (empty_db\<lparr>response_tbl := [multi_response]\<rparr>) = Inr (self1, d1) \<and>
      multianswer_tbl d1 = [] \<and> r_answer self1 = PNone) \<and>
   (\<exists>self1 d1. Response_save example_env (multi_response\<lparr>r_id := None\<rparr>) empty_db =
        Inr (self1, d1) \<and>
      map ma_answer_text (multianswer_tbl d1) = [''A'', ''B''] \<and> r_answer self1 = PStr ''A, B'') \<and>
   (\<exists>self1 d1. Response_save example_env multi_response empty_db = Inr (self1, d1) \<and>
      map ma_answer_text (multianswer_tbl d1) = [''A'', ''B''] \<and> r_answer self1 = PStr ''A, B'')"
proof (intro conjI)
  have "stored (empty_db\<lparr>response_tbl := [multi_response]\<rparr>) multi_response"
    by (simp add: stored_def multi_response_def example_response_def)
  then have "Response_save example_env multi_response (empty_db\<lparr>response_tbl := [multi_response]\<rparr>) =
      write_row example_env multi_response (empty_db\<lparr>response_tbl := [multi_response]\<rparr>)"
    using normalization_runs_once_at_creation
      [of "empty_db\<lparr>response_tbl := [multi_response]\<rparr>" multi_response example_env]
    by simp
  then show "\<exists>self1 d1. Response_save example_env multi_response
        (empty_db\<lparr>response_tbl := [multi_response]\<rparr>) = Inr (self1, d1) \<and>
      multianswer_tbl d1 = [] \<and> r_answer self1 = PNone"
    by (simp add: write_row_def response_row_def decimal_column_def andThen_def orRaise_def Let_def
        multi_response_def example_defs)
next
  let ?new = "multi_response\<lparr>r_id := None\<rparr>"
  have unstored: "\<not> stored empty_db ?new" by (simp add: stored_def)
  have super: "Response_super_save example_env
        (if r_ts ?new = None then ?new\<lparr>r_ts := Some (utcnow example_env)\<rparr> else ?new) empty_db =
      Inr (True, multi_response, empty_db\<lparr>response_tbl := [multi_response]\<rparr>)"
    by (simp add: Response_super_save_def response_row_def decimal_column_def andThen_def Let_def
        orRaise_def fresh_id_def stored_def multi_response_def example_defs)
  have "Response_save example_env ?new empty_db =
      normalize_once example_env multi_response (empty_db\<lparr>response_tbl := [multi_response]\<rparr>)"
    using normalization_runs_once_at_creation [of empty_db ?new example_env] unstored
    unfolding super by (simp add: andThen_def)
  moreover have "multianswer_tbl (empty_db\<lparr>response_tbl := [multi_response]\<rparr>) = []"
    by (simp add: empty_db_def)
  ultimately show "\<exists>self1 d1. Response_save example_env ?new empty_db = Inr (self1, d1) \<and>
      map ma_answer_text (multianswer_tbl d1) = [''A'', ''B''] \<and> r_answer self1 = PStr ''A, B''"
    using multi_response_once [of "empty_db\<lparr>response_tbl := [multi_response]\<rparr>" multi_response]
    by simp
next
  have unstored: "\<not> stored empty_db multi_response" by (simp add: stored_def empty_db_def)
  have super: "Response_super_save example_env
        (if r_ts multi_response = None then multi_response\<lparr>r_ts := Some (utcnow example_env)\<rparr>
         else multi_response) empty_db =
      Inr (True, multi_response, empty_db\<lparr>response_tbl := [multi_response]\<rparr>)"
    by (simp add: Response_super_save_def response_row_def decimal_column_def andThen_def Let_def
        orRaise_def stored_def multi_response_def example_defs)
  have "Response_save example_env multi_response empty_db =
      normalize_once example_env multi_response (empty_db\<lparr>response_tbl := [multi_response]\<rparr>)"
    using normalization_runs_once_at_creation [of empty_db multi_response example_env] unstored
    unfolding super by (simp add: andThen_def)
  moreover have "multianswer_tbl (empty_db\<lparr>response_tbl := [multi_response]\<rparr>) = []"
    by (simp add: empty_db_def)
  ultimately show "\<exists>self1 d1. Response_save example_env multi_response empty_db = Inr (self1, d1) \<and>
      map ma_answer_text (multianswer_tbl d1) = [''A'', ''B''] \<and> r_answer self1 = PStr ''A, B''"
    using multi_response_once [of "empty_db\<lparr>response_tbl := [multi_response]\<rparr>" multi_response]
    by simp
qed


section \<open>Branches that keep no child rows\<close>

text \<open>
  A branch that only sets the answer, for a question whose slug names no attribute of the
  Respondant. A Response that has no row yet is inserted by the closing \<^verbatim>\<open>self.save()\<close>,
  which makes the handler run the method a second time, with the same result.
\<close>

lemma normalize_once_plain:
  assumes "r_id s = Some i" "r_answer_raw s = Some raw" "raw \<noteq> []"
    and "normalize E raw s d = Inr (s\<lparr>r_answer := v\<rparr>, d)"
    and "slug_is_no_attribute E s d"
    and "decimal_column E 10 2 (r_answer_number s) = Some n"
  shows "\<exists>self1 d1. normalize_once E s d = Inr (self1, d1) \<and>
           r_answer self1 = v \<and> r_answer_number self1 = r_answer_number s \<and>
           multianswer_tbl d1 = multianswer_tbl d \<and> gridanswer_tbl d1 = gridanswer_tbl d \<and>
           location_tbl d1 = location_tbl d \<and> locationanswer_tbl d1 = locationanswer_tbl d \<and>
           (\<forall>row\<in>set (response_tbl d1). r_id row = Some i \<longrightarrow>
              r_answer row = text_field E v \<and> r_answer_number row = n)"
proof -
  let ?self = "s\<lparr>r_answer := v\<rparr>"
  have attr: "slug_is_no_attribute E ?self d"
    using assms(5) by (simp add: slug_is_no_attribute_cong [of ?self s d d])
  have once: "normalize_once E s d = write_row E ?self d"
    by (rule normalize_once_no_attribute [OF assms(2,3,4) attr])
  have dec: "decimal_column E 10 2 (r_answer_number ?self) = Some n" using assms(6) by simp
  from write_row_Inr [OF dec, of d]
  obtain self1 d1 where w: "write_row E ?self d = Inr (self1, d1)"
    and self1: "r_answer self1 = v" "r_answer_number self1 = r_answer_number s"
    and tbls: "multianswer_tbl d1 = multianswer_tbl d" "gridanswer_tbl d1 = gridanswer_tbl d"
      "location_tbl d1 = location_tbl d" "locationanswer_tbl d1 = locationanswer_tbl d"
    and rows: "response_tbl d1 =
       map (\<lambda>x. if r_id x = r_id ?self
                 then self1\<lparr>r_answer := text_field E (r_answer ?self), r_answer_number := n\<rparr> else x)
         (response_tbl d)"
    by auto
  have "r_answer row = text_field E v \<and> r_answer_number row = n"
    if "row \<in> set (response_tbl d1)" "r_id row = Some i" for row
    using that assms(1) unfolding rows by auto
  then show ?thesis
    using once w self1 tbls by (intro exI [of _ self1] exI [of _ d1]) auto
qed

lemma Response_save_related_plain:
  assumes "r_id self = Some i" "r_answer_raw self = Some raw" "raw \<noteq> []"
    and norm: "\<And>s d'. r_question s = r_question self \<Longrightarrow>
                 normalize E raw s d' = Inr (s\<lparr>r_answer := v\<rparr>, d')"
    and "slug_is_no_attribute E self d"
    and "decimal_column E 10 2 (r_answer_number self) = Some n"
  shows "\<exists>self1 d1. Response_save_related E self d = Inr (self1, d1) \<and>
           r_answer self1 = v \<and> r_answer_number self1 = r_answer_number self \<and>
           multianswer_tbl d1 = multianswer_tbl d \<and> gridanswer_tbl d1 = gridanswer_tbl d \<and>
           location_tbl d1 = location_tbl d \<and> locationanswer_tbl d1 = locationanswer_tbl d \<and>
           (\<forall>row\<in>set (response_tbl d1). r_id row = Some i \<longrightarrow>
              r_answer row = text_field E v \<and> r_answer_number row = n)"
proof (cases "stored d self")
  case True
  show ?thesis
    unfolding Response_save_related_stored [OF True]
    by (rule normalize_once_plain [OF assms(1,2,3) norm assms(5,6)]) simp
next
  case False
  let ?self = "self\<lparr>r_answer := v\<rparr>"
  let ?ts = "if r_ts ?self = None then ?self\<lparr>r_ts := Some (utcnow E)\<rparr> else ?self"
  let ?row = "?ts\<lparr>r_answer := text_field E v, r_answer_number := n\<rparr>"
  let ?d = "d\<lparr>response_tbl := response_tbl d @ [?row]\<rparr>"
  have ts: "r_id ?ts = Some i" "r_answer_raw ?ts = Some raw" "r_question ?ts = r_question self"
    "r_respondant ?ts = r_respondant self" "r_answer_number ?ts = r_answer_number self"
    "?ts\<lparr>r_answer := v\<rparr> = ?ts"
    using assms(1,2) by simp_all
  have attr: "slug_is_no_attribute E ?self d"
    using assms(5) by (simp add: slug_is_no_attribute_cong [of ?self self d d])
  have "slug_is_no_attribute E ?ts ?d = slug_is_no_attribute E self d"
    by (rule slug_is_no_attribute_cong) simp_all
  then have attr_ts: "slug_is_no_attribute E ?ts ?d" using assms(5) by (rule iffD2)
  have related: "Response_save_related E self d = Response_save E ?self d"
    using assms(2,3) norm [of self d] update_respondant_no_attribute [OF attr]
    by (simp add: Response_save_related.simps)
  have unstored: "\<not> stored d ?self" using False by (simp add: stored_def)
  have unstored_ts: "\<not> stored d ?ts" using False by (simp add: stored_def)
  have super: "Response_super_save E ?ts d = Inr (True, ?ts, ?d)"
    using unstored_ts assms(1,6)
    by (simp add: Response_super_save_def response_row_def andThen_def orRaise_def)
  have save: "Response_save E ?self d = normalize_once E ?ts ?d"
    unfolding Response_save_unstored [OF unstored] super by (simp add: andThen_def)
  have norm_ts: "normalize E raw ?ts ?d = Inr (?ts\<lparr>r_answer := v\<rparr>, ?d)"
    by (rule norm [OF ts(3)])
  have dec: "decimal_column E 10 2 (r_answer_number ?ts) = Some n"
    using assms(6) ts(5) by simp
  from normalize_once_plain [OF ts(1,2) assms(3) norm_ts attr_ts dec]
  obtain self1 d1 where res: "normalize_once E ?ts ?d = Inr (self1, d1)"
    "r_answer self1 = v" "r_answer_number self1 = r_answer_number ?ts"
    "multianswer_tbl d1 = multianswer_tbl ?d" "gridanswer_tbl d1 = gridanswer_tbl ?d"
    "location_tbl d1 = location_tbl ?d" "locationanswer_tbl d1 = locationanswer_tbl ?d"
    "\<forall>row\<in>set (response_tbl d1). r_id row = Some i \<longrightarrow>
        r_answer row = text_field E v \<and> r_answer_number row = n"
    by (elim exE conjE)
  show ?thesis
    unfolding related save
    by (intro exI [of _ self1] exI [of _ d1]) (use res ts(5) in simp)
qed

section \<open>Numeric questions\<close>

lemma normalize_not_number:
  assumes "q_type (r_question self) \<in> set numeric_types" "py_loads E raw = Some v" "\<not> is_number v"
  shows "normalize E raw self d = Inr (self\<lparr>r_answer := PNone\<rparr>, d)"
  using assms
  by (auto simp: normalize_def numeric_types_def loads_def orRaise_def andThen_def Let_def)

text \<open>
  C2, as amended. For a stored Response on a currency, integer or number question whose
  raw payload decodes to a value that is no number (null, a string, a list, an object),
  \<^verbatim>\<open>save_related\<close> returns, the answer is null and \<^verbatim>\<open>answer_number\<close> stays null, on the
  instance and in the stored row. The question's slug names no attribute of the Respondant.
\<close>

theorem non_number_payload_is_null:
  assumes "q_type (r_question self) \<in> set numeric_types"
    and "r_id self = Some i" and "r_answer_raw self = Some raw" and "raw \<noteq> []"
    and "py_loads E raw = Some v" and "\<not> is_number v"
    and "r_answer_number self = PNone" and "slug_is_no_attribute E self d"
  shows "\<exists>self1 d1. Response_save_related E self d = Inr (self1, d1) \<and>
           r_answer self1 = PNone \<and> r_answer_number self1 = PNone \<and>
           (\<forall>row\<in>set (response_tbl d1). r_id row = Some i \<longrightarrow>
              r_answer row = PNone \<and> r_answer_number row = PNone)"
proof -
  have norm: "normalize E raw s d' = Inr (s\<lparr>r_answer := PNone\<rparr>, d')"
    if "r_question s = r_question self" for s d'
    by (rule normalize_not_number [OF _ assms(5,6)]) (use that assms(1) in simp)
  have dec: "decimal_column E 10 2 (r_answer_number self) = Some PNone"
    using assms(7) by (simp add: decimal_column_def)
  have "\<exists>self1 d1. Response_save_related E self d = Inr (self1, d1) \<and>
           r_answer self1 = PNone \<and> r_answer_number self1 = r_answer_number self \<and>
           multianswer_tbl d1 = multianswer_tbl d \<and> gridanswer_tbl d1 = gridanswer_tbl d \<and>
           location_tbl d1 = location_tbl d \<and> locationanswer_tbl d1 = locationanswer_tbl d \<and>
           (\<forall>row\<in>set (response_tbl d1). r_id row = Some i \<longrightarrow>
              r_answer row = text_field E PNone \<and> r_answer_number row = PNone)"
    by (rule Response_save_related_plain [OF assms(2,3,4) _ assms(8) dec]) (rule norm)
  then obtain self1 d1 where res: "Response_save_related E self d = Inr (self1, d1)"
    "r_answer self1 = PNone" "r_answer_number self1 = r_answer_number self"
    "\<forall>row\<in>set (response_tbl d1). r_id row = Some i \<longrightarrow>
        r_answer row = text_field E PNone \<and> r_answer_number row = PNone"
    by (elim exE conjE)
  show ?thesis
    by (intro exI [of _ self1] exI [of _ d1]) (use res assms(7) in simp)
qed

theorem non_number_payload_is_null_witness:
  "\<exists>self1 d1. Response_save_related example_env (number_response abc_raw)
        (empty_db\<lparr>response_tbl := [number_response abc_raw]\<rparr>) = Inr (self1, d1) \<and>
     r_answer self1 = PNone \<and> r_answer_number self1 = PNone"
proof -
  have "\<exists>self1 d1. Response_save_related example_env (number_response abc_raw)
        (empty_db\<lparr>response_tbl := [number_response abc_raw]\<rparr>) = Inr (self1, d1) \<and>
      r_answer self1 = PNone \<and> r_answer_number self1 = PNone \<and>
      (\<forall>row\<in>set (response_tbl d1). r_id row = Some 1 \<longrightarrow>
         r_answer row = PNone \<and> r_answer_number row = PNone)"
    by (rule non_number_payload_is_null [where raw = abc_raw and v = "PStr ''abc''"])
      (simp_all add: number_response_def example_defs example_loads_def example_raw_defs
        numeric_types_def slug_is_no_attribute_def)
  then show ?thesis by auto
qed

text \<open>The claim as stated fails twice. A JSON \<^verbatim>\<open>true\<close> is not a number, but it is an
  instance of \<^verbatim>\<open>int\<close>: answer and \<^verbatim>\<open>answer_number\<close> are both set. And a payload that is
  not JSON at all raises.\<close>

theorem non_number_payload_counterexample:
  "Response_save_related example_env (number_response ''true'')
     (empty_db\<lparr>response_tbl := [number_response ''true'']\<rparr>) =
   Inr ((number_response ''true'')\<lparr>r_answer := PBool True, r_answer_number := PBool True\<rparr>,
        empty_db\<lparr>response_tbl :=
          [(number_response ''true'')\<lparr>r_answer := PStr ''True'', r_answer_number := PDecimal 1\<rparr>]\<rparr>) \<and>
   Response_save_related example_env (number_response ''abc'')
     (empty_db\<lparr>response_tbl := [number_response ''abc'']\<rparr>) = Inl JSONDecodeError"
  by (simp add: Response_save_related_defs number_response_def example_defs example_loads_def
      example_str_def example_raw_defs map_answers_def)

section \<open>Unknown types\<close>










section \<open>Grid questions\<close>

lemma grid_multi_loop_rows:
  assumes "r_id self = Some i" "map_of row ''label'' = Some row_label"
    "map_of row ''text'' = Some row_text"
  shows "\<exists>new. grid_multi_loop E self (PDict row) grid_col these d =
            (None, d\<lparr>gridanswer_tbl := gridanswer_tbl d @ new\<rparr>) \<and>
          length new = length these \<and> (\<forall>g\<in>set new. ga_response g = i)"
proof (induction these arbitrary: d)
  case Nil
  then show ?case by simp
next
  case (Cons this_answer rest)
  let ?row = "\<lparr>ga_id = fresh_id (map ga_id (gridanswer_tbl d)), ga_response = i,
      ga_row_text = text_field E row_text, ga_row_label = text_field E row_label,
      ga_col_text = o_text grid_col, ga_col_label = o_label grid_col,
      ga_answer_text = text_field E this_answer, ga_answer_number = PNone\<rparr>"
  let ?d1 = "d\<lparr>gridanswer_tbl := gridanswer_tbl d @ [?row]\<rparr>"
  have step: "grid_multi_loop E self (PDict row) grid_col (this_answer # rest) d =
      grid_multi_loop E self (PDict row) grid_col rest ?d1"
    using assms
    by (simp add: GridAnswer_save_def decimal_column_def andThen_def orRaise_def)
  from Cons.IH [of ?d1]
  obtain new where new: "grid_multi_loop E self (PDict row) grid_col rest ?d1 =
      (None, ?d1\<lparr>gridanswer_tbl := gridanswer_tbl ?d1 @ new\<rparr>)"
    "length new = length rest" "\<forall>g\<in>set new. ga_response g = i"
    by (elim exE conjE)
  show ?case
    by (rule exI [of _ "?row # new"]) (use step new in simp)
qed

lemma grid_multi_rows:
  assumes "r_id self = Some i" "map_of row ''label'' = Some row_label"
    "map_of row ''text'' = Some row_text"
    "map_of row (remove_char (CHR ''-'') (o_label grid_col)) = Some (PList selected)"
  shows "\<exists>new. grid_multi E self (PDict row) grid_col d =
            (None, d\<lparr>gridanswer_tbl := gridanswer_tbl d @ new\<rparr>) \<and>
          length new = length selected \<and> (\<forall>g\<in>set new. ga_response g = i)"
  using grid_multi_loop_rows [OF assms(1-3), of E grid_col selected d] assms(4)
  by (simp add: grid_multi_def andThen_def orRaise_def)

lemma grid_cell_row:
  assumes "r_id self = Some i" "map_of row ''label'' = Some row_label"
    "map_of row ''text'' = Some row_text"
    "map_of row (remove_char (CHR ''-'') (o_label grid_col)) = Some v"
    "decimal_column E 10 2 v = Some number"
  shows "\<exists>new. grid_cell E self (PDict row) grid_col d =
            Inr (d\<lparr>gridanswer_tbl := gridanswer_tbl d @ new\<rparr>) \<and>
          length new = 1 \<and> (\<forall>g\<in>set new. ga_response g = i)"
proof -
  let ?row = "\<lparr>ga_id = fresh_id (map ga_id (gridanswer_tbl d)), ga_response = i,
      ga_row_text = text_field E row_text, ga_row_label = text_field E row_label,
      ga_col_text = o_text grid_col, ga_col_label = o_label grid_col,
      ga_answer_text = text_field E v, ga_answer_number = number\<rparr>"
  have "grid_cell E self (PDict row) grid_col d =
      Inr (d\<lparr>gridanswer_tbl := gridanswer_tbl d @ [?row]\<rparr>)"
    using assms
    by (simp add: grid_cell_def GridAnswer_save_def andThen_def orRaise_def Let_def)
  then show ?thesis by (intro exI [of _ "[?row]"]) simp
qed

text \<open>The two columns of the claim, in either order.\<close>

lemma grid_cols_loop_two:
  assumes "r_id self = Some i" "map_of row ''label'' = Some row_label"
    "map_of row ''text'' = Some row_text"
    and "cols = [number_col, multi_col] \<or> cols = [multi_col, number_col]"
    and "o_type number_col \<in> set numeric_types" "o_type multi_col = ''multi-select''"
    and "map_of row (remove_char (CHR ''-'') (o_label number_col)) = Some v"
    and "decimal_column E 10 2 v = Some number"
    and "map_of row (remove_char (CHR ''-'') (o_label multi_col)) = Some (PList selected)"
  shows "\<exists>new. grid_cols_loop E self (PDict row) cols False d =
            Inr (False, d\<lparr>gridanswer_tbl := gridanswer_tbl d @ new\<rparr>) \<and>
          length new = 1 + length selected \<and> (\<forall>g\<in>set new. ga_response g = i)"
proof -
  have scalar: "o_type number_col \<in> set grid_scalar_types"
    using assms(5) by (auto simp: numeric_types_def grid_scalar_types_def)
  have multi: "o_type multi_col \<notin> set grid_scalar_types"
    using assms(6) by (simp add: grid_scalar_types_def)
  from assms(4) show ?thesis
  proof
    assume cols: "cols = [number_col, multi_col]"
    from grid_cell_row [OF assms(1-3,7,8), of d]
    obtain new1 where c: "grid_cell E self (PDict row) number_col d =
        Inr (d\<lparr>gridanswer_tbl := gridanswer_tbl d @ new1\<rparr>)"
      "length new1 = 1" "\<forall>g\<in>set new1. ga_response g = i"
      by (elim exE conjE)
    let ?d1 = "d\<lparr>gridanswer_tbl := gridanswer_tbl d @ new1\<rparr>"
    from grid_multi_rows [OF assms(1-3,9), of E ?d1]
    obtain new2 where m: "grid_multi E self (PDict row) multi_col ?d1 =
        (None, ?d1\<lparr>gridanswer_tbl := gridanswer_tbl ?d1 @ new2\<rparr>)"
      "length new2 = length selected" "\<forall>g\<in>set new2. ga_response g = i"
      by (elim exE conjE)
    show ?thesis
      by (rule exI [of _ "new1 @ new2"]) (use cols scalar multi assms(6) c m in auto)
  next
    assume cols: "cols = [multi_col, number_col]"
    from grid_multi_rows [OF assms(1-3,9), of E d]
    obtain new2 where m: "grid_multi E self (PDict row) multi_col d =
        (None, d\<lparr>gridanswer_tbl := gridanswer_tbl d @ new2\<rparr>)"
      "length new2 = length selected" "\<forall>g\<in>set new2. ga_response g = i"
      by (elim exE conjE)
    let ?d1 = "d\<lparr>gridanswer_tbl := gridanswer_tbl d @ new2\<rparr>"
    from grid_cell_row [OF assms(1-3,7,8), of ?d1]
    obtain new1 where c: "grid_cell E self (PDict row) number_col ?d1 =
        Inr (?d1\<lparr>gridanswer_tbl := gridanswer_tbl ?d1 @ new1\<rparr>)"
      "length new1 = 1" "\<forall>g\<in>set new1. ga_response g = i"
      by (elim exE conjE)
    show ?thesis
      by (rule exI [of _ "new2 @ new1"]) (use cols scalar multi assms(6) c m in auto)
  qed
qed

lemma normalize_grid:
  assumes "q_type (r_question self) = ''grid''" "r_id self = Some i"
    and "py_loads E raw = Some (PList [PDict row])"
    and "map_of row ''label'' = Some row_label" "map_of row ''text'' = Some row_text"
    and "q_grid_cols (r_question self) = [number_col, multi_col] \<or>
         q_grid_cols (r_question self) = [multi_col, number_col]"
    and "o_type number_col \<in> set numeric_types" "o_type multi_col = ''multi-select''"
    and "map_of row (remove_char (CHR ''-'') (o_label number_col)) = Some v"
    and "decimal_column E 10 2 v = Some number"
    and "map_of row (remove_char (CHR ''-'') (o_label multi_col)) = Some (PList selected)"
  shows "\<exists>new. normalize E raw self d =
            Inr (self\<lparr>r_answer := PList [PDict row]\<rparr>,
                 d\<lparr>gridanswer_tbl := filter (\<lambda>g. ga_response g \<noteq> i) (gridanswer_tbl d) @ new\<rparr>) \<and>
          length new = 1 + length selected \<and> (\<forall>g\<in>set new. ga_response g = i)"
proof -
  let ?self = "self\<lparr>r_answer := PList [PDict row]\<rparr>"
  have id: "r_id ?self = Some i" using assms(2) by simp
  have cols: "q_grid_cols (r_question ?self) = [number_col, multi_col] \<or>
      q_grid_cols (r_question ?self) = [multi_col, number_col]"
    using assms(6) by simp
  from grid_cols_loop_two [OF id assms(4,5) cols assms(7-11), of "delete_gridanswers ?self d"]
  obtain new where new: "grid_cols_loop E ?self (PDict row) (q_grid_cols (r_question ?self)) False
        (delete_gridanswers ?self d) =
      Inr (False, (delete_gridanswers ?self d)\<lparr>gridanswer_tbl :=
             gridanswer_tbl (delete_gridanswers ?self d) @ new\<rparr>)"
    "length new = 1 + length selected" "\<forall>g\<in>set new. ga_response g = i"
    by (elim exE conjE)
  have "normalize E raw self d =
      Inr (?self, d\<lparr>gridanswer_tbl := filter (\<lambda>g. ga_response g \<noteq> i) (gridanswer_tbl d) @ new\<rparr>)"
    using assms(1,2,3) new(1)
    by (simp add: normalize_def loads_def orRaise_def andThen_def Let_def numeric_types_def
        delete_gridanswers_def)
  then show ?thesis using new(2,3) by (intro exI [of _ new]) simp
qed

text \<open>
  C5, as amended. For a grid Response whose row is stored and whose payload is one row
  object with a label and a text, on a question with one numeric column and one
  multi-select column (in either order), where the row gives the numeric column a value
  that the decimal column of 10 digits, 2 of them decimal places, accepts and the
  multi-select column a list of \<open>k\<close> selected values, \<^verbatim>\<open>save_related\<close> leaves the Response
  with exactly \<open>1 + k\<close> GridAnswer rows. The question's slug names no attribute of the
  Respondant, and the decimal column accepts the Response's \<^verbatim>\<open>answer_number\<close>.
\<close>

theorem grid_row_count:
  assumes "q_type (r_question self) = ''grid''"
    and "r_id self = Some i" and "stored d self"
    and "r_answer_raw self = Some raw" and "raw \<noteq> []"
    and "py_loads E raw = Some (PList [PDict row])"
    and "map_of row ''label'' = Some row_label" and "map_of row ''text'' = Some row_text"
    and "q_grid_cols (r_question self) = [number_col, multi_col] \<or>
         q_grid_cols (r_question self) = [multi_col, number_col]"
    and "o_type number_col \<in> set numeric_types" and "o_type multi_col = ''multi-select''"
    and "map_of row (remove_char (CHR ''-'') (o_label number_col)) = Some v"
    and "decimal_column E 10 2 v = Some number"
    and "map_of row (remove_char (CHR ''-'') (o_label multi_col)) = Some (PList selected)"
    and "slug_is_no_attribute E self d"
    and "decimal_column E 10 2 (r_answer_number self) = Some n"
  shows "\<exists>self1 d1. Response_save_related E self d = Inr (self1, d1) \<and>
           length (gridanswer_set d1 self1) = 1 + length selected"
proof -
  let ?self = "self\<lparr>r_answer := PList [PDict row]\<rparr>"
  from normalize_grid [OF assms(1,2,6,7,8,9,10,11,12,13,14), of d]
  obtain new where norm: "normalize E raw self d =
      Inr (?self, d\<lparr>gridanswer_tbl := filter (\<lambda>g. ga_response g \<noteq> i) (gridanswer_tbl d) @ new\<rparr>)"
    and new: "length new = 1 + length selected" "\<forall>g\<in>set new. ga_response g = i"
    by (elim exE conjE)
  let ?d = "d\<lparr>gridanswer_tbl := filter (\<lambda>g. ga_response g \<noteq> i) (gridanswer_tbl d) @ new\<rparr>"
  have attr: "slug_is_no_attribute E ?self ?d"
    using assms(15) by (simp add: slug_is_no_attribute_cong [of ?self self ?d d])
  have once: "Response_save_related E self d = write_row E ?self ?d"
    using Response_save_related_stored [OF assms(3)]
      normalize_once_no_attribute [OF assms(4,5) norm attr] by simp
  have dec: "decimal_column E 10 2 (r_answer_number ?self) = Some n" using assms(16) by simp
  from write_row_Inr [OF dec, of ?d]
  obtain self1 d1 where w: "write_row E ?self ?d = Inr (self1, d1)"
    and self1: "r_id self1 = Some i"
    and tbl: "gridanswer_tbl d1 = gridanswer_tbl ?d"
    using assms(2) by auto
  have "gridanswer_set d1 self1 = new"
    using new(2) by (simp add: gridanswer_set_def tbl self1 filter_id_conv)
  then show ?thesis
    using once w new(1) by (intro exI [of _ self1] exI [of _ d1]) simp
qed

theorem grid_row_count_witness:
  "\<exists>self1 d1. Response_save_related example_env grid_response
        (empty_db\<lparr>response_tbl := [grid_response]\<rparr>) = Inr (self1, d1) \<and>
     length (gridanswer_set d1 self1) = 3"
proof -
  have "\<exists>self1 d1. Response_save_related example_env grid_response
        (empty_db\<lparr>response_tbl := [grid_response]\<rparr>) = Inr (self1, d1) \<and>
      length (gridanswer_set d1 self1) = 1 + length [PStr ''a'', PStr ''b'']"
    by (rule grid_row_count [where raw = grid_raw and v = "PInt 3" and n = PNone
          and number = "PDecimal 3" and row_label = "PStr ''row-1''" and row_text = "PStr ''Row 1''"
          and number_col = "\<lparr>o_text = ''Quantity'', o_label = ''qty'', o_type = ''integer''\<rparr>"
          and multi_col = "\<lparr>o_text = ''Kinds'', o_label = ''kinds'', o_type = ''multi-select''\<rparr>"
          and row = "[(''text'', PStr ''Row 1''), (''label'', PStr ''row-1''),
                            (''qty'', PInt 3), (''kinds'', PList [PStr ''a'', PStr ''b''])]"])
      (simp_all add: grid_response_def example_defs example_loads_def example_raw_defs
        numeric_types_def slug_is_no_attribute_def decimal_column_def remove_char_def stored_def)
  then show ?thesis by (simp add: numeral_3_eq_3)
qed

text \<open>
  The claim as stated fails when the cell of the numeric column cannot be saved: the
  \<^verbatim>\<open>try\<close> around it skips the row, and only the \<open>k\<close> rows of the multi-select column
  are written. Here the cell is an empty string, then a number of nine digits, which the
  column of 10 digits with 2 decimal places has no room for; \<open>k\<close> is 2.
\<close>

theorem grid_row_count_counterexample:
  "(\<exists>self1 d1. Response_save_related example_env (grid_response\<lparr>r_answer_raw := Some grid_blank_raw\<rparr>)
        (empty_db\<lparr>response_tbl := [grid_response\<lparr>r_answer_raw := Some grid_blank_raw\<rparr>]\<rparr>) =
        Inr (self1, d1) \<and>
      map ga_col_label (gridanswer_set d1 self1) = [''kinds'', ''kinds'']) \<and>
   (\<exists>self1 d1. Response_save_related example_env (grid_response\<lparr>r_answer_raw := Some grid_big_raw\<rparr>)
        (empty_db\<lparr>response_tbl := [grid_response\<lparr>r_answer_raw := Some grid_big_raw\<rparr>]\<rparr>) =
        Inr (self1, d1) \<and>
      map ga_col_label (gridanswer_set d1 self1) = [''kinds'', ''kinds''])"
  by (simp add: Response_save_related_defs grid_response_def example_defs example_loads_def
      example_raw_defs example_str_def map_answers_def grid_cell_def grid_multi_def
      GridAnswer_save_def delete_gridanswers_def gridanswer_set_def fresh_id_def remove_char_def
      grid_scalar_types_def)

section \<open>Map questions\<close>

lemma fold_max_ge: "a \<le> fold max ids (a::nat)"
proof (induction ids arbitrary: a)
  case Nil
  then show ?case by simp
next
  case (Cons x xs)
  have "a \<le> max x a" by simp
  also have "\<dots> \<le> fold max xs (max x a)" by (rule Cons.IH)
  finally show ?case by simp
qed

lemma fold_max_member: "x \<in> set ids \<Longrightarrow> x \<le> fold max ids (a::nat)"
proof (induction ids arbitrary: a)
  case Nil
  then show ?case by simp
next
  case (Cons y ys)
  show ?case
  proof (cases "x = y")
    case True
    have "x \<le> max y a" using True by simp
    also have "\<dots> \<le> fold max ys (max y a)" by (rule fold_max_ge)
    finally show ?thesis by simp
  next
    case False
    with Cons.prems have "x \<in> set ys" by simp
    then show ?thesis using Cons.IH by simp
  qed
qed

lemma fresh_id_fresh: "fresh_id ids \<notin> set ids"
proof
  assume "fresh_id ids \<in> set ids"
  then have "fresh_id ids \<le> fold max ids 0" by (rule fold_max_member)
  then show False by (simp add: fresh_id_def)
qed

lemma get_respondant_no_attribute:
  "slug_is_no_attribute E self d \<Longrightarrow> \<exists>found. get_respondant d self = Inr found"
  by (auto simp: slug_is_no_attribute_def get_respondant_def Let_def split: option.splits)

lemma get_respondant_cong:
  "r_respondant self1 = r_respondant self \<Longrightarrow> respondant_tbl d1 = respondant_tbl d \<Longrightarrow>
   get_respondant d1 self1 = get_respondant d self"
  by (simp add: get_respondant_def split: option.splits)

text \<open>The branch on a payload of one point with one sub-answer.\<close>

lemma normalize_one_point:
  assumes "q_type (r_question self) = ''map-multipoint'' \<or> q_type (r_question self) = ''pennies''"
    and "r_id self = Some i" "i \<noteq> 0"
    and "py_loads E raw = Some (PStr inner)"
    and "py_loads E inner = Some (PList [PDict point])"
    and "map_of point ''lat'' = Some lat" "map_of point ''lng'' = Some lng"
    and "map_of point ''answers'' = Some (PList [PList [PDict sub]])"
    and "map_of sub ''text'' = Some text" "map_of sub ''label'' = Some label"
    and "py_Decimal E (py_str E lat) = Some dlat" "py_Decimal E (py_str E lng) = Some dlng"
    and "decimal_column E 10 7 (PDecimal dlat) = Some lat1"
    and "decimal_column E 10 7 (PDecimal dlng) = Some lng1"
    and "get_respondant d self = Inr found"
  shows "normalize E raw self d =
     (let d0 = delete_locations self d;
          location = \<lparr>l_id = fresh_id (map l_id (location_tbl d0)), l_response = i,
            l_respondant = map_option rd_uuid found, l_lat = lat1, l_lng = lng1\<rparr>
      in Inr (self\<lparr>r_answer := PStr (py_str E lat @ '','' @ py_str E lng @ '': '' @
                     py_str E (PList [PList [PDict sub]]))\<rparr>,
              d0\<lparr>location_tbl := location_tbl d0 @ [location],
                 locationanswer_tbl := locationanswer_tbl d0 @
                   [\<lparr>la_id = fresh_id (map la_id (locationanswer_tbl d0)),
                     la_location = l_id location, la_answer = text_field E text,
                     la_label = text_field E label\<rparr>]\<rparr>))"
proof -
  let ?self = "self\<lparr>r_answer := PStr inner\<rparr>"
  have del: "delete_locations ?self d = delete_locations self d"
    by (simp add: delete_locations_def response_location_set_def)
  have resp: "get_respondant (delete_locations self d) ?self = Inr found"
    using assms(15) get_respondant_cong [of ?self self "delete_locations self d" d]
    by (simp add: delete_locations_def)
  have branch: "points_branch E raw ?self d = 
     (let d0 = delete_locations self d;
          location = \<lparr>l_id = fresh_id (map l_id (location_tbl d0)), l_response = i,
            l_respondant = map_option rd_uuid found, l_lat = lat1, l_lng = lng1\<rparr>
      in Inr (self\<lparr>r_answer := PStr (py_str E lat @ '','' @ py_str E lng @ '': '' @
                     py_str E (PList [PList [PDict sub]]))\<rparr>,
              d0\<lparr>location_tbl := location_tbl d0 @ [location],
                 locationanswer_tbl := locationanswer_tbl d0 @
                   [\<lparr>la_id = fresh_id (map la_id (locationanswer_tbl d0)),
                     la_location = l_id location, la_answer = text_field E text,
                     la_label = text_field E label\<rparr>]\<rparr>))"
    using assms(2,4-14) resp
    by (simp add: points_branch_def del loads_def orRaise_def andThen_def Let_def
        Location_save_def LocationAnswer_save_def)
  show ?thesis
    using assms(1,2,3,4) branch
    by (auto simp: normalize_def loads_def orRaise_def andThen_def Let_def numeric_types_def)
qed

text \<open>After the old Locations of a Response are deleted, no LocationAnswer that is left
  points to the id the next Location gets, when every LocationAnswer points to a
  Location.\<close>

lemma delete_locations_fresh:
  assumes "\<forall>a\<in>set (locationanswer_tbl d). la_location a \<in> set (map l_id (location_tbl d))"
    and "a \<in> set (locationanswer_tbl (delete_locations self d))"
  shows "la_location a \<noteq> fresh_id (map l_id (location_tbl (delete_locations self d)))"
proof -
  from assms(2) have a: "a \<in> set (locationanswer_tbl d)"
    "la_location a \<notin> set (map l_id (response_location_set d self))"
    by (simp_all add: delete_locations_def)
  from assms(1) a(1) obtain l where l: "l \<in> set (location_tbl d)" "l_id l = la_location a"
    by auto
  have "Some (l_response l) \<noteq> r_id self"
  proof
    assume "Some (l_response l) = r_id self"
    with l(1) have "l \<in> set (response_location_set d self)"
      by (simp add: response_location_set_def)
    then have "l_id l \<in> set (map l_id (response_location_set d self))" by simp
    with a(2) l(2) show False by simp
  qed
  with l have "la_location a \<in> set (map l_id (location_tbl (delete_locations self d)))"
    by (force simp: delete_locations_def)
  then show ?thesis using fresh_id_fresh by metis
qed

text \<open>
  C6, as amended. For a map-multipoint Response whose row is stored, whose id is not 0 and
  whose raw payload is the JSON text of a string that is itself the JSON text of a list
  with one point, \<^verbatim>\<open>{"lat": lat, "lng": lng, "answers": [[{"text": text, "label":
  label}]]}\<close>, \<^verbatim>\<open>save_related\<close> leaves the Response with exactly one Location, holding
  \<^verbatim>\<open>Decimal(str(lat))\<close> and \<^verbatim>\<open>Decimal(str(lng))\<close>, with exactly one LocationAnswer
  attached, holding the text and the label, and sets the answer to the summaries
  \<^verbatim>\<open>"lat,lng: answers"\<close> joined by \<^verbatim>\<open>", "\<close>: here the one summary. \<^verbatim>\<open>Decimal\<close> and the
  decimal column of 10 digits, 7 of them decimal places, accept the coordinates, every
  LocationAnswer of the database points to a Location, the question's slug names no
  attribute of the Respondant, and the decimal column accepts the Response's
  \<^verbatim>\<open>answer_number\<close>.
\<close>

theorem map_point_rows_and_answer:
  assumes "q_type (r_question self) = ''map-multipoint''"
    and "r_id self = Some i" and "i \<noteq> 0" and "stored d self"
    and "r_answer_raw self = Some raw" and "raw \<noteq> []"
    and "py_loads E raw = Some (PStr inner)"
    and "py_loads E inner = Some (PList [PDict point])"
    and "map_of point ''lat'' = Some lat" and "map_of point ''lng'' = Some lng"
    and "map_of point ''answers'' = Some (PList [PList [PDict sub]])"
    and "map_of sub ''text'' = Some text" and "map_of sub ''label'' = Some label"
    and "py_Decimal E (py_str E lat) = Some dlat" and "py_Decimal E (py_str E lng) = Some dlng"
    and "decimal_column E 10 7 (PDecimal dlat) = Some lat1"
    and "decimal_column E 10 7 (PDecimal dlng) = Some lng1"
    and "slug_is_no_attribute E self d"
    and "decimal_column E 10 2 (r_answer_number self) = Some n"
    and "\<forall>a\<in>set (locationanswer_tbl d). la_location a \<in> set (map l_id (location_tbl d))"
  shows "\<exists>self1 d1 location answer.
           Response_save_related E self d = Inr (self1, d1) \<and>
           response_location_set d1 self1 = [location] \<and>
           l_lat location = lat1 \<and> l_lng location = lng1 \<and>
           locationanswer_set d1 location = [answer] \<and>
           la_answer answer = text_field E text \<and> la_label answer = text_field E label \<and>
           r_answer self1 = PStr (join '', ''
             [py_str E lat @ '','' @ py_str E lng @ '': '' @ py_str E (PList [PList [PDict sub]])])"
proof -
  obtain found where found: "get_respondant d self = Inr found"
    using get_respondant_no_attribute [OF assms(18)] by blast
  let ?del = "delete_locations self d"
  let ?location = "\<lparr>l_id = fresh_id (map l_id (location_tbl ?del)), l_response = i,
      l_respondant = map_option rd_uuid found, l_lat = lat1, l_lng = lng1\<rparr>"
  let ?answer = "\<lparr>la_id = fresh_id (map la_id (locationanswer_tbl ?del)),
      la_location = l_id ?location, la_answer = text_field E text, la_label = text_field E label\<rparr>"
  let ?self = "self\<lparr>r_answer := PStr (py_str E lat @ '','' @ py_str E lng @ '': '' @
      py_str E (PList [PList [PDict sub]]))\<rparr>"
  let ?d = "?del\<lparr>location_tbl := location_tbl ?del @ [?location],
      locationanswer_tbl := locationanswer_tbl ?del @ [?answer]\<rparr>"
  have norm: "normalize E raw self d = Inr (?self, ?d)"
    using normalize_one_point [OF disjI1 [OF assms(1)] assms(2,3,7-17) found]
    by (simp add: Let_def)
  have attr: "slug_is_no_attribute E ?self ?d"
    using assms(18) slug_is_no_attribute_cong [of ?self self ?d d]
    by (simp add: delete_locations_def)
  have once: "Response_save_related E self d = write_row E ?self ?d"
    using Response_save_related_stored [OF assms(4)]
      normalize_once_no_attribute [OF assms(5,6) norm attr] by simp
  have dec: "decimal_column E 10 2 (r_answer_number ?self) = Some n" using assms(19) by simp
  from write_row_Inr [OF dec, of ?d]
  obtain self1 d1 where w: "write_row E ?self ?d = Inr (self1, d1)"
    and self1: "r_id self1 = Some i" "r_answer self1 = r_answer ?self"
    and tbl: "location_tbl d1 = location_tbl ?d" "locationanswer_tbl d1 = locationanswer_tbl ?d"
    using assms(2) by auto
  have locations: "response_location_set d1 self1 = [?location]"
    using assms(2)
    by (simp add: response_location_set_def tbl self1 delete_locations_def)
  have "\<not> la_location a = l_id ?location" if "a \<in> set (locationanswer_tbl ?del)" for a
    using delete_locations_fresh [OF assms(20) that] by simp
  then have "filter (\<lambda>a. la_location a = l_id ?location) (locationanswer_tbl ?del) = []"
    by (intro filter_False) blast
  then have answers: "locationanswer_set d1 ?location = [?answer]"
    by (simp add: locationanswer_set_def tbl)
  show ?thesis
    using once w self1 locations answers
    by (intro exI [of _ self1] exI [of _ d1] exI [of _ ?location] exI [of _ ?answer]) simp
qed

theorem map_point_rows_and_answer_witness:
  \<open>\<exists>self1 d1 location answer.
     Response_save_related example_env map_response
       (empty_db\<lparr>response_tbl := [map_response]\<rparr>) = Inr (self1, d1) \<and>
     response_location_set d1 self1 = [location] \<and>
     l_lat location = PDecimal 1 \<and> l_lng location = PDecimal 2 \<and>
     locationanswer_set d1 location = [answer] \<and> la_answer answer = PStr ''x'' \<and>
     r_answer self1 = PStr ''1.0,2.0: [[{'text': 'x', 'label': 'x'}]]''\<close>
proof -
  have "\<exists>self1 d1 location answer.
     Response_save_related example_env map_response
       (empty_db\<lparr>response_tbl := [map_response]\<rparr>) = Inr (self1, d1) \<and>
     response_location_set d1 self1 = [location] \<and>
     l_lat location = PDecimal 1 \<and> l_lng location = PDecimal 2 \<and>
     locationanswer_set d1 location = [answer] \<and>
     la_answer answer = text_field example_env (PStr ''x'') \<and>
     la_label answer = text_field example_env (PStr ''x'') \<and>
     r_answer self1 = PStr (join '', ''
       [py_str example_env (PFloat 1) @ '','' @ py_str example_env (PFloat 2) @ '': '' @
        py_str example_env (PList [PList [PDict [(''text'', PStr ''x''), (''label'', PStr ''x'')]]])])"
    by (rule map_point_rows_and_answer [where raw = map_raw and inner = map_inner and n = PNone
          and i = 1 and dlat = 1 and dlng = 2
          and point = "[(''lat'', PFloat 1), (''lng'', PFloat 2), (''answers'', map_answers)]"])
      (simp_all add: map_response_def example_defs example_loads_def example_str_def
        example_raw_defs map_answers_def slug_is_no_attribute_def decimal_column_def stored_def)
  then obtain self1 d1 location answer where
    "Response_save_related example_env map_response
       (empty_db\<lparr>response_tbl := [map_response]\<rparr>) = Inr (self1, d1)"
    "response_location_set d1 self1 = [location]"
    "l_lat location = PDecimal 1" "l_lng location = PDecimal 2"
    "locationanswer_set d1 location = [answer]"
    "la_answer answer = text_field example_env (PStr ''x'')"
    "r_answer self1 = PStr (join '', ''
       [py_str example_env (PFloat 1) @ '','' @ py_str example_env (PFloat 2) @ '': '' @
        py_str example_env (PList [PList [PDict [(''text'', PStr ''x''), (''label'', PStr ''x'')]]])])"
    by (elim exE conjE)
  then show ?thesis
    by (intro exI [of _ self1] exI [of _ d1] exI [of _ location] exI [of _ answer])
      (simp add: example_env_def example_str_def map_answers_def)
qed

text \<open>
  The claim as stated fails on its own payload: when \<^verbatim>\<open>answer_raw\<close> is the JSON text of
  the list, the second \<^verbatim>\<open>simplejson.loads\<close> is given the list and raises.
\<close>

theorem map_point_single_encoding_counterexample:
  "Response_save_related example_env (example_response ''map-multipoint'' (Some map_inner))
     (empty_db\<lparr>response_tbl := [example_response ''map-multipoint'' (Some map_inner)]\<rparr>) =
   Inl TypeError"
  by (simp add: Response_save_related_defs points_branch_def example_defs example_loads_def
      example_raw_defs map_answers_def delete_locations_def response_location_set_def)

end
